theory Spec2Isabelle
  imports Complex_Main "HOL-Library.AList"
begin

section \<open>Strings and numbers of the host language\<close>

text \<open>
  The importer is JavaScript. A string is modelled as the list of its code units, and the
  model covers the code units below 256 (the type \<open>char\<close>); the white space, digit and
  word classes below are those of ECMAScript restricted to that range. Every pattern of
  the program is written with ASCII characters, so case-insensitive comparison only
  ever identifies the ASCII letters with their capitals.
\<close>

definition isWhiteSpace :: "char \<Rightarrow> bool" where
  "isWhiteSpace c =
     (c \<in> set [CHR 0x09, CHR 0x0A, CHR 0x0B, CHR 0x0C, CHR 0x0D, CHR 0x20, CHR 0xA0])"

definition isLineTerminator :: "char \<Rightarrow> bool" where
  "isLineTerminator c = (c = CHR 0x0A \<or> c = CHR 0x0D)"

definition isDigit :: "char \<Rightarrow> bool" where
  "isDigit c = (c \<in> set ''0123456789'')"

definition isWordChar :: "char \<Rightarrow> bool" where
  "isWordChar c =
     (c \<in> set ''abcdefghijklmnopqrstuvwxyzABCDEFGHIJKLMNOPQRSTUVWXYZ0123456789_'')"

definition canonicalize :: "char \<Rightarrow> char" where
  "canonicalize c =
     (case map_of (zip ''abcdefghijklmnopqrstuvwxyz'' ''ABCDEFGHIJKLMNOPQRSTUVWXYZ'') c of
        Some u \<Rightarrow> u
      | None \<Rightarrow> c)"

definition lowerChar :: "char \<Rightarrow> char" where
  "lowerChar c =
     (let n = (of_char c :: nat)
      in if (65 \<le> n \<and> n \<le> 90) \<or> (192 \<le> n \<and> n \<le> 222 \<and> n \<noteq> 215)
         then char_of (n + 32) else c)"

definition toLowerCase :: "string \<Rightarrow> string" where
  "toLowerCase s = map lowerChar s"

definition trim :: "string \<Rightarrow> string" where
  "trim s = rev (dropWhile isWhiteSpace (rev (dropWhile isWhiteSpace s)))"

text \<open>\<open>s.split(c)\<close> for a separator of one character: the empty string gives one empty piece.\<close>

fun split :: "char \<Rightarrow> string \<Rightarrow> string list" where
  "split sep [] = [[]]"
| "split sep (c # cs) =
     (if c = sep then [] # split sep cs
      else (case split sep cs of
              [] \<Rightarrow> [[c]]
            | w # ws \<Rightarrow> (c # w) # ws))"


definition includesChar :: "string \<Rightarrow> char \<Rightarrow> bool" where
  "includesChar s c = (c \<in> set s)"

definition startsWith :: "string \<Rightarrow> string \<Rightarrow> bool" where
  "startsWith s p = (take (length p) s = p)"


text \<open>
  A number is a rational, an infinity or NaN. The rounding of doubles is not modelled:
  the digit strings of a statblock denote their exact values.
\<close>

datatype number = Num rat | Infinity | NegInfinity | NaN

definition digitVal :: "char \<Rightarrow> int" where
  "digitVal c =
     (case map_of (zip ''0123456789'' [0, 1, 2, 3, 4, 5, 6, 7, 8, 9]) c of
        Some d \<Rightarrow> d
      | None \<Rightarrow> 0)"

definition digitsVal :: "string \<Rightarrow> int" where
  "digitsVal ds = foldl (\<lambda>n c. 10 * n + digitVal c) 0 ds"

text \<open>
  \<open>parseInt\<close> in radix ten: leading white space, an optional sign, then the longest run
  of digits; NaN when that run is empty. The program only ever passes it text that a
  pattern \<open>\d+\<close> or \<open>[+-]\d+\<close> has captured, so the hexadecimal prefix never arises.
\<close>

definition parseInt :: "string \<Rightarrow> number" where
  "parseInt s =
     (let s1 = dropWhile isWhiteSpace s;
          neg = (case s1 of [] \<Rightarrow> False | c # _ \<Rightarrow> c = CHR ''-'');
          s2 = (case s1 of [] \<Rightarrow> [] | c # r \<Rightarrow> if c = CHR ''-'' \<or> c = CHR ''+'' then r else s1);
          ds = takeWhile isDigit s2
      in if ds = [] then NaN
         else if neg then Num (of_int (- digitsVal ds)) else Num (of_int (digitsVal ds)))"

text \<open>The quotient \<open>a / b\<close> of two numbers, as IEEE 754 defines it on the cases above.\<close>

fun numDiv :: "number \<Rightarrow> number \<Rightarrow> number" where
  "numDiv (Num a) (Num b) =
     (if b \<noteq> 0 then Num (a / b)
      else if a = 0 then NaN
      else if 0 < a then Infinity else NegInfinity)"
| "numDiv NaN _ = NaN"
| "numDiv _ NaN = NaN"
| "numDiv (Num a) _ = Num 0"
| "numDiv Infinity (Num b) = (if 0 \<le> b then Infinity else NegInfinity)"
| "numDiv NegInfinity (Num b) = (if 0 \<le> b then NegInfinity else Infinity)"
| "numDiv _ _ = NaN"

section \<open>Regular expressions\<close>

text \<open>
  The patterns of the program are terms of \<open>rx\<close>, one constructor for each construct
  the program uses: a literal, a class \<open>[...]\<close> and its complement \<open>[^...]\<close>, the dot,
  sequence, alternative, the greedy quantifier \<open>{min,max}\<close>, a numbered capture group, the
  anchors \<open>^\<close> and \<open>$\<close> and the word boundary. A group \<open>(?:...)\<close> is plain nesting.
\<close>

datatype citem = Ch char | Range char char | ClsD | ClsW | ClsS

datatype rx =
    Lit string
  | Cls "citem list"
  | NCls "citem list"
  | Dot
  | Seq rx rx
  | Alt rx rx
  | Rep nat "nat option" rx
  | Grp nat rx
  | Bol
  | Eol
  | WordB

abbreviation Star :: "rx \<Rightarrow> rx" where "Star r \<equiv> Rep 0 None r"
abbreviation Plus :: "rx \<Rightarrow> rx" where "Plus r \<equiv> Rep 1 None r"
abbreviation Opt :: "rx \<Rightarrow> rx" where "Opt r \<equiv> Rep 0 (Some 1) r"
abbreviation sp :: rx where "sp \<equiv> Cls [ClsS]"
abbreviation dg :: rx where "dg \<equiv> Cls [ClsD]"

fun seqs :: "rx list \<Rightarrow> rx" where
  "seqs [] = Lit []"
| "seqs [r] = r"
| "seqs (r # rs) = Seq r (seqs rs)"

fun alts :: "rx list \<Rightarrow> rx" where
  "alts [] = Lit []"
| "alts [r] = r"
| "alts (r # rs) = Alt r (alts rs)"

text \<open>The alternative of literal words, \<open>(?:w1|w2|...)\<close>.\<close>

definition words :: "string list \<Rightarrow> rx" where
  "words ws = alts (map Lit ws)"

text \<open>
  A match state: the input before the current position (nearest character first), the
  input after it, and the captures made so far (latest first).
\<close>

datatype mstate = MState (before: string) (after: string) (caps: "(nat \<times> string) list")

definition inRange :: "char \<Rightarrow> char \<Rightarrow> char \<Rightarrow> bool" where
  "inRange lo hi c = ((of_char lo :: nat) \<le> of_char c \<and> (of_char c :: nat) \<le> of_char hi)"

fun itemMatch :: "bool \<Rightarrow> citem \<Rightarrow> char \<Rightarrow> bool" where
  "itemMatch ic (Ch a) c = (if ic then canonicalize a = canonicalize c else a = c)"
| "itemMatch ic (Range lo hi) c =
     (inRange lo hi c \<or> (ic \<and> (inRange lo hi (canonicalize c) \<or> inRange lo hi (lowerChar c))))"
| "itemMatch ic ClsD c = isDigit c"
| "itemMatch ic ClsW c = isWordChar c"
| "itemMatch ic ClsS c = isWhiteSpace c"

definition classMatch :: "bool \<Rightarrow> citem list \<Rightarrow> char \<Rightarrow> bool" where
  "classMatch ic items c = list_ex (\<lambda>i. itemMatch ic i c) items"

fun litMatch :: "bool \<Rightarrow> string \<Rightarrow> mstate \<Rightarrow> mstate option" where
  "litMatch ic [] st = Some st"
| "litMatch ic (p # ps) (MState b [] cs) = None"
| "litMatch ic (p # ps) (MState b (c # a) cs) =
     (if itemMatch ic (Ch p) c then litMatch ic ps (MState (c # b) a cs) else None)"

fun oneChar :: "(char \<Rightarrow> bool) \<Rightarrow> (mstate \<Rightarrow> mstate option) \<Rightarrow> mstate \<Rightarrow> mstate option" where
  "oneChar p k (MState b [] cs) = None"
| "oneChar p k (MState b (c # a) cs) = (if p c then k (MState (c # b) a cs) else None)"

text \<open>
  The greedy quantifier, as the language defines it: once the maximum is used up the
  continuation runs; otherwise the body is tried first, an iteration that consumed
  nothing is refused once the minimum is met, and the continuation runs when the
  body fails and the minimum is met. Every iteration lowers the minimum or consumes
  a character, so fuel of one more than the minimum plus the remaining input never runs out.
\<close>

fun repeatMatcher :: "((mstate \<Rightarrow> mstate option) \<Rightarrow> mstate \<Rightarrow> mstate option) \<Rightarrow> nat \<Rightarrow> nat
    \<Rightarrow> nat option \<Rightarrow> (mstate \<Rightarrow> mstate option) \<Rightarrow> mstate \<Rightarrow> mstate option" where
  "repeatMatcher body 0 mn mx k (MState b a cs) = None"
| "repeatMatcher body (Suc fuel) mn mx k (MState b a cs) =
     (if mx = Some 0 then k (MState b a cs)
      else case body (\<lambda>st'. if mn = 0 \<and> length (after st') = length a then None
                            else repeatMatcher body fuel (mn - 1) (map_option (\<lambda>x. x - 1) mx) k st')
                     (MState b a cs) of
             Some r \<Rightarrow> Some r
           | None \<Rightarrow> if mn = 0 then k (MState b a cs) else None)"

fun atBol :: "bool \<Rightarrow> mstate \<Rightarrow> bool" where
  "atBol ml (MState [] a cs) = True"
| "atBol ml (MState (c # b) a cs) = (ml \<and> isLineTerminator c)"

fun atEol :: "bool \<Rightarrow> mstate \<Rightarrow> bool" where
  "atEol ml (MState b [] cs) = True"
| "atEol ml (MState b (c # a) cs) = (ml \<and> isLineTerminator c)"

fun wordBefore :: "mstate \<Rightarrow> bool" where
  "wordBefore (MState [] a cs) = False"
| "wordBefore (MState (c # b) a cs) = isWordChar c"

fun wordAfter :: "mstate \<Rightarrow> bool" where
  "wordAfter (MState b [] cs) = False"
| "wordAfter (MState b (c # a) cs) = isWordChar c"

text \<open>The capture of group \<open>n\<close>: what was consumed between the input \<open>a0\<close> left at its start and the state at its end.\<close>

fun setCap :: "nat \<Rightarrow> string \<Rightarrow> mstate \<Rightarrow> mstate" where
  "setCap n a0 (MState b a cs) = MState b a ((n, take (length a0 - length a) a0) # cs)"

text \<open>
  The backtracking matcher in continuation style: \<open>matcher ic ml r k st\<close> matches \<open>r\<close> at
  \<open>st\<close> and hands each way of matching, in the order of priority, to the continuation
  \<open>k\<close> until one succeeds. \<open>ic\<close> is the flag \<open>i\<close> and \<open>ml\<close> the flag \<open>m\<close>.
\<close>

fun matcher :: "bool \<Rightarrow> bool \<Rightarrow> rx \<Rightarrow> (mstate \<Rightarrow> mstate option) \<Rightarrow> mstate \<Rightarrow> mstate option" where
  "matcher ic ml (Lit s) k (MState b a cs) =
     (case litMatch ic s (MState b a cs) of None \<Rightarrow> None | Some st' \<Rightarrow> k st')"
| "matcher ic ml (Cls items) k (MState b a cs) = oneChar (classMatch ic items) k (MState b a cs)"
| "matcher ic ml (NCls items) k (MState b a cs) =
     oneChar (\<lambda>c. \<not> classMatch ic items c) k (MState b a cs)"
| "matcher ic ml Dot k (MState b a cs) = oneChar (\<lambda>c. \<not> isLineTerminator c) k (MState b a cs)"
| "matcher ic ml (Seq r1 r2) k (MState b a cs) =
     matcher ic ml r1 (matcher ic ml r2 k) (MState b a cs)"
| "matcher ic ml (Alt r1 r2) k (MState b a cs) =
     (case matcher ic ml r1 k (MState b a cs) of
        Some r \<Rightarrow> Some r
      | None \<Rightarrow> matcher ic ml r2 k (MState b a cs))"
| "matcher ic ml (Rep mn mx r) k (MState b a cs) =
     repeatMatcher (matcher ic ml r) (Suc (mn + length a)) mn mx k (MState b a cs)"
| "matcher ic ml (Grp n r) k (MState b a cs) =
     matcher ic ml r (\<lambda>st'. k (setCap n a st')) (MState b a cs)"
| "matcher ic ml Bol k (MState b a cs) = (if atBol ml (MState b a cs) then k (MState b a cs) else None)"
| "matcher ic ml Eol k (MState b a cs) = (if atEol ml (MState b a cs) then k (MState b a cs) else None)"
| "matcher ic ml WordB k (MState b a cs) =
     (if wordBefore (MState b a cs) \<noteq> wordAfter (MState b a cs) then k (MState b a cs) else None)"

text \<open>A regular expression object: its pattern and its flags \<open>i\<close>, \<open>m\<close> and \<open>g\<close>.\<close>

record regexp =
  pattern :: rx
  ignoreCase :: bool
  multiline :: bool
  global :: bool

definition regex :: "rx \<Rightarrow> regexp" where
  "regex r = \<lparr>pattern = r, ignoreCase = False, multiline = False, global = False\<rparr>"

definition regex_i :: "rx \<Rightarrow> regexp" where
  "regex_i r = \<lparr>pattern = r, ignoreCase = True, multiline = False, global = False\<rparr>"


definition regex_g :: "rx \<Rightarrow> regexp" where
  "regex_g r = \<lparr>pattern = r, ignoreCase = False, multiline = False, global = True\<rparr>"

definition matchAt :: "regexp \<Rightarrow> string \<Rightarrow> string \<Rightarrow> mstate option" where
  "matchAt R b a = matcher (ignoreCase R) (multiline R) (pattern R) Some (MState b a [])"

text \<open>The search for the leftmost match, from the position between \<open>b\<close> and \<open>a\<close> onwards.\<close>

fun search :: "regexp \<Rightarrow> string \<Rightarrow> string \<Rightarrow> mstate option" where
  "search R b [] = matchAt R b []"
| "search R b (c # a) =
     (case matchAt R b (c # a) of
        Some st \<Rightarrow> Some st
      | None \<Rightarrow> search R (c # b) a)"

text \<open>
  \<open>s.match(R)\<close> and \<open>R.test(s)\<close> for an expression without the flag \<open>g\<close>: the search starts
  at the beginning of \<open>s\<close> and the expression's \<open>lastIndex\<close> is neither read nor written.
\<close>

definition strMatch :: "string \<Rightarrow> regexp \<Rightarrow> mstate option" where
  "strMatch s R = search R [] s"


text \<open>The text of capture group \<open>n\<close> of a match; \<open>None\<close> is \<open>undefined\<close>.\<close>

definition group :: "mstate \<Rightarrow> nat \<Rightarrow> string option" where
  "group st n = map_of (caps st) n"

definition groupOr :: "mstate \<Rightarrow> nat \<Rightarrow> string" where
  "groupOr st n = (case group st n of None \<Rightarrow> [] | Some s \<Rightarrow> s)"

text \<open>
  \<open>s.replace(R, f)\<close> for an expression with the flag \<open>g\<close>: every match, from left to
  right, is replaced by what \<open>f\<close> makes of it; after an empty match the search resumes
  one character further. The call first sets \<open>lastIndex\<close> to 0 and leaves it at 0, so it
  takes the old value and returns the new one.
\<close>

function replaceFrom :: "regexp \<Rightarrow> (mstate \<Rightarrow> string) \<Rightarrow> string \<Rightarrow> string \<Rightarrow> string" where
  "replaceFrom R f b a =
     (case matchAt R b a of
        None \<Rightarrow> (case a of [] \<Rightarrow> [] | c # a' \<Rightarrow> c # replaceFrom R f (c # b) a')
      | Some st \<Rightarrow>
          (let n = length a - length (after st)
           in if n = 0
              then f st @ (case a of [] \<Rightarrow> [] | c # a' \<Rightarrow> c # replaceFrom R f (c # b) a')
              else f st @ replaceFrom R f (rev (take n a) @ b) (drop n a)))"
  by pat_completeness auto
termination
  by (relation "measure (\<lambda>(R, f, b, a). length a)") auto

definition replaceAll :: "string \<Rightarrow> regexp \<Rightarrow> (mstate \<Rightarrow> string) \<Rightarrow> nat \<Rightarrow> string \<times> nat" where
  "replaceAll s R f lastIndex = (replaceFrom R f [] s, 0)"

section \<open>The monster parser\<close>

subsection \<open>Block types and their patterns\<close>

text \<open>The keys of \<open>monsterParser.Blocks\<close>, in the order of the object literal.\<close>

datatype blockId =
    Abilities | Actions | Armor | BonusActions | Challenge | ConditionImmunities
  | DamageImmunities | Immunities2024 | DamageResistances | DamageVulnerabilities
  | Features | Gear | Health | Initiative | LairActions | Languages | LegendaryActions
  | MythicActions | Name | ProficiencyBonus | RacialDetails | Reactions | SavingThrows
  | Senses | Skills | Souls | Speed | Traits | UtilitySpells | VillainActions | OtherBlock

definition Blocks_keys :: "blockId list" where
  "Blocks_keys =
     [Abilities, Actions, Armor, BonusActions, Challenge, ConditionImmunities,
      DamageImmunities, Immunities2024, DamageResistances, DamageVulnerabilities,
      Features, Gear, Health, Initiative, LairActions, Languages, LegendaryActions,
      MythicActions, Name, ProficiencyBonus, RacialDetails, Reactions, SavingThrows,
      Senses, Skills, Souls, Speed, Traits, UtilitySpells, VillainActions, OtherBlock]"

text \<open>The attribute \<open>top\<close> of a block; a block that does not declare it is not top-level.\<close>

definition top :: "blockId \<Rightarrow> bool" where
  "top b = (b \<in> set [Abilities, Armor, Challenge, ConditionImmunities, DamageImmunities,
                      Immunities2024, DamageResistances, DamageVulnerabilities, Gear, Health,
                      Initiative, Languages, ProficiencyBonus, RacialDetails, SavingThrows,
                      Senses, Skills, Souls, Speed])"

definition sizeWords :: "string list" where
  "sizeWords = [''tiny'', ''small'', ''medium'', ''large'', ''huge'', ''gargantuan'']"

definition typeWords :: "string list" where
  "typeWords = [''aberration'', ''beast'', ''celestial'', ''construct'', ''dragon'', ''elemental'',
                ''fey'', ''fiend'', ''giant'', ''humanoid'', ''monstrosity'', ''ooze'', ''plant'',
                ''undead'']"

definition rx_racialDetails :: regexp where
  "rx_racialDetails = regex_i (seqs
     [Bol, Grp 1 (words sizeWords), Plus sp, Grp 2 (words typeWords),
      Opt (Grp 3 (seqs [Star sp, Lit ''('', Grp 4 (Plus (NCls [Ch CHR '')''])), Lit '')''])),
      Star sp, Lit '','', Star sp,
      Grp 5 (words [''lawful good'', ''neutral good'', ''chaotic good'', ''lawful neutral'',
                    ''neutral'', ''chaotic neutral'', ''lawful evil'', ''neutral evil'',
                    ''chaotic evil'', ''unaligned'', ''any alignment'',
                    ''any non-good alignment'', ''any non-lawful alignment'',
                    ''any chaotic alignment''])])"

definition rx_armor :: regexp where
  "rx_armor = regex_i (seqs
     [Bol, Lit ''armor'', Plus sp, Lit ''class'', Plus sp, Grp 1 (Plus dg),
      Opt (seqs [Plus sp, Lit ''('', Grp 2 (Plus (NCls [Ch CHR '')''])), Lit '')''])])"

definition rx_health :: regexp where
  "rx_health = regex_i (seqs
     [Bol, Lit ''hit'', Plus sp, Lit ''points'', Plus sp, Grp 1 (Plus dg), Star sp,
      Lit ''('', Grp 2 (Plus (NCls [Ch CHR '')''])), Lit '')''])"

definition rx_speed :: regexp where
  "rx_speed = regex_i (seqs [Bol, Lit ''speed'', Plus sp, Grp 1 (Plus Dot)])"

definition rx_abilities :: regexp where
  "rx_abilities = regex_i (seqs
     [Bol, Grp 1 (words [''str'', ''dex'', ''con'', ''int'', ''wis'', ''cha'']), Plus sp,
      Grp 2 (Plus dg), Star sp, Lit ''('',
      Grp 3 (Seq (Cls [Ch CHR ''-'', Ch CHR ''+'']) (Plus dg)), Lit '')''])"

definition rx_savingThrows :: regexp where
  "rx_savingThrows = regex_i (seqs
     [Bol, Lit ''saving'', Plus sp, Lit ''throws'', Plus sp, Grp 1 (Plus Dot)])"

definition rx_skills :: regexp where
  "rx_skills = regex_i (seqs [Bol, Lit ''skills'', Plus sp, Grp 1 (Plus Dot)])"

definition rx_damageVulnerabilities :: regexp where
  "rx_damageVulnerabilities = regex_i (seqs
     [Bol, Lit ''damage'', Plus sp, Lit ''vulnerabilities'', Plus sp, Grp 1 (Plus Dot)])"

definition rx_damageResistances :: regexp where
  "rx_damageResistances = regex_i (seqs
     [Bol, Lit ''damage'', Plus sp, Lit ''resistances'', Plus sp, Grp 1 (Plus Dot)])"

definition rx_damageImmunities :: regexp where
  "rx_damageImmunities = regex_i (seqs
     [Bol, Lit ''damage'', Plus sp, Lit ''immunities'', Plus sp, Grp 1 (Plus Dot)])"

definition rx_conditionImmunities :: regexp where
  "rx_conditionImmunities = regex_i (seqs
     [Bol, Lit ''condition'', Plus sp, Lit ''immunities'', Plus sp, Grp 1 (Plus Dot)])"

definition rx_immunities2024 :: regexp where
  "rx_immunities2024 = regex_i (seqs [Bol, Lit ''immunities'', Plus sp, Grp 1 (Plus Dot)])"

definition rx_senses :: regexp where
  "rx_senses = regex_i (seqs [Bol, Lit ''senses'', Plus sp, Grp 1 (Plus Dot)])"

definition rx_languages :: regexp where
  "rx_languages = regex_i (seqs [Bol, Lit ''languages'', Plus sp, Grp 1 (Plus Dot)])"

definition rx_challenge :: regexp where
  "rx_challenge = regex_i (seqs
     [Bol, Lit ''challenge'', Plus sp,
      Grp 1 (Alt (seqs [Plus dg, Lit ''/'', Plus dg]) (Plus dg)), Star sp,
      Lit ''('', Grp 2 (Plus (NCls [Ch CHR '')''])), Star sp, Lit '')''])"

definition rx_actions :: regexp where
  "rx_actions = regex_i (seqs [Bol, Lit ''actions'', Eol])"

definition rx_bonusActions :: regexp where
  "rx_bonusActions = regex_i (seqs [Bol, Lit ''bonus'', Plus sp, Lit ''actions'', Eol])"

definition rx_reactions :: regexp where
  "rx_reactions = regex_i (seqs [Bol, Lit ''reactions'', Eol])"

definition rx_legendaryActions :: regexp where
  "rx_legendaryActions = regex_i (seqs [Bol, Lit ''legendary'', Plus sp, Lit ''actions'', Eol])"

definition rx_lairActions :: regexp where
  "rx_lairActions = regex_i (seqs [Bol, Lit ''lair'', Plus sp, Lit ''actions'', Eol])"

definition rx_mythicActions :: regexp where
  "rx_mythicActions = regex_i (seqs [Bol, Lit ''mythic'', Plus sp, Lit ''actions'', Eol])"

definition rx_villainActions :: regexp where
  "rx_villainActions = regex_i (seqs [Bol, Lit ''villain'', Plus sp, Lit ''actions'', Eol])"

definition rx_blockTitle :: regexp where
  "rx_blockTitle = regex (seqs
     [Bol, Grp 1 (Seq (Cls [Range CHR ''A'' CHR ''Z'']) (Plus (Cls [ClsW, ClsS]))), Lit ''.''])"

definition rx_otherBlock :: regexp where
  "rx_otherBlock = regex (seqs
     [Bol, Grp 1 (Seq (Cls [Range CHR ''A'' CHR ''Z'']) (Rep 0 (Some 30) (Cls [ClsW, ClsS]))),
      Lit ''.''])"

definition rx_removeNewLines :: regexp where
  "rx_removeNewLines = regex_g (seqs
     [Grp 1 (words [''Hit Points'', ''Armor Class'', ''Speed'', ''Saving Throws'', ''Skills'',
                    ''Damage Vulnerabilities'', ''Damage Resistances'', ''Damage Immunities'',
                    ''Condition Immunities'', ''Immunities'', ''Senses'', ''Languages'',
                    ''Challenge'']),
      Star sp, Lit [CHR 0x0A]])"

text \<open>\<open>this.#regex[b]\<close> for a key \<open>b\<close> of \<open>Blocks\<close>; \<open>None\<close> where the table has no such entry.\<close>

fun regexOf :: "blockId \<Rightarrow> regexp option" where
  "regexOf Abilities = Some rx_abilities"
| "regexOf Actions = Some rx_actions"
| "regexOf Armor = Some rx_armor"
| "regexOf BonusActions = Some rx_bonusActions"
| "regexOf Challenge = Some rx_challenge"
| "regexOf ConditionImmunities = Some rx_conditionImmunities"
| "regexOf DamageImmunities = Some rx_damageImmunities"
| "regexOf Immunities2024 = Some rx_immunities2024"
| "regexOf DamageResistances = Some rx_damageResistances"
| "regexOf DamageVulnerabilities = Some rx_damageVulnerabilities"
| "regexOf Health = Some rx_health"
| "regexOf LairActions = Some rx_lairActions"
| "regexOf Languages = Some rx_languages"
| "regexOf LegendaryActions = Some rx_legendaryActions"
| "regexOf MythicActions = Some rx_mythicActions"
| "regexOf RacialDetails = Some rx_racialDetails"
| "regexOf Reactions = Some rx_reactions"
| "regexOf SavingThrows = Some rx_savingThrows"
| "regexOf Senses = Some rx_senses"
| "regexOf Skills = Some rx_skills"
| "regexOf Speed = Some rx_speed"
| "regexOf VillainActions = Some rx_villainActions"
| "regexOf OtherBlock = Some rx_otherBlock"
| "regexOf _ = None"

subsection \<open>Tagging the lines\<close>

text \<open>
  The \<open>Map\<close> of blocks is an association list in insertion order: \<open>set\<close> on a present key
  replaces its value in place (\<open>AList.update\<close>), and an entry is a line with its number.
\<close>

type_synonym entry = "nat \<times> string"
type_synonym blocks = "(blockId \<times> entry list) list"

definition has :: "blocks \<Rightarrow> blockId \<Rightarrow> bool" where
  "has bs b = (map_of bs b \<noteq> None)"

definition getFirstMatch :: "string \<Rightarrow> blockId list \<Rightarrow> blockId option" where
  "getFirstMatch line excludeIds =
     find (\<lambda>b. if b \<in> set excludeIds then False
                else (case regexOf b of
                        None \<Rightarrow> False
                      | Some R \<Rightarrow> strMatch line R \<noteq> None))
          (filter (\<lambda>b. b \<notin> set [Name, Features, OtherBlock]) Blocks_keys)"

record parseState =
  blocks :: blocks
  currentBlockId :: "blockId option"
  foundTopBlock :: bool
  foundAbilityLine :: bool

definition initialState :: parseState where
  "initialState = \<lparr>blocks = [], currentBlockId = None, foundTopBlock = True,
                    foundAbilityLine = False\<rparr>"

text \<open>The body of the loop of \<open>_parseIntoBlocks\<close> for the line \<open>lines[i]\<close>, statement by statement.\<close>

definition handleFeatures :: "string \<Rightarrow> blockId option \<Rightarrow> parseState \<Rightarrow> parseState" where
  "handleFeatures line mtch ps =
     (if mtch = None \<and> foundTopBlock ps \<and> strMatch line rx_blockTitle \<noteq> None
      then ps\<lparr>foundTopBlock := False, currentBlockId := Some Features,
               blocks := AList.update Features [] (blocks ps)\<rparr>
      else ps)"

definition handleOther :: "string \<Rightarrow> blockId option \<Rightarrow> parseState \<Rightarrow> parseState" where
  "handleOther line mtch ps =
     (if mtch = None \<and> \<not> foundAbilityLine ps \<and> strMatch line rx_otherBlock \<noteq> None
      then ps\<lparr>foundTopBlock := False, currentBlockId := Some OtherBlock,
               blocks := (if has (blocks ps) OtherBlock then blocks ps
                          else AList.update OtherBlock [] (blocks ps))\<rparr>
      else ps)"

definition handleTop :: "blockId option \<Rightarrow> parseState \<Rightarrow> parseState" where
  "handleTop mtch ps =
     (case mtch of None \<Rightarrow> ps | Some b \<Rightarrow> ps\<lparr>foundTopBlock := top b\<rparr>)"

definition handleAbilityEnd :: "blockId option \<Rightarrow> parseState \<Rightarrow> parseState" where
  "handleAbilityEnd mtch ps =
     (if mtch \<noteq> None \<and> foundAbilityLine ps \<and> mtch \<noteq> Some Abilities
      then ps\<lparr>foundAbilityLine := False\<rparr>
      else ps)"

definition handleMatch :: "blockId option \<Rightarrow> parseState \<Rightarrow> parseState" where
  "handleMatch mtch ps =
     (case mtch of
        None \<Rightarrow> ps
      | Some b \<Rightarrow>
          if \<not> foundAbilityLine ps
          then ps\<lparr>currentBlockId := Some b,
                   blocks := (if has (blocks ps) b then blocks ps
                              else AList.update b [] (blocks ps)),
                   foundAbilityLine := (b = Abilities)\<rparr>
          else ps)"

definition pushLine :: "nat \<Rightarrow> string \<Rightarrow> parseState \<Rightarrow> parseState" where
  "pushLine i line ps =
     (case currentBlockId ps of
        None \<Rightarrow> ps
      | Some b \<Rightarrow>
          (case map_of (blocks ps) b of
             None \<Rightarrow> ps
           | Some es \<Rightarrow> ps\<lparr>blocks := AList.update b (es @ [(i, line)]) (blocks ps)\<rparr>))"

definition tagLine :: "nat \<Rightarrow> string \<Rightarrow> parseState \<Rightarrow> parseState" where
  "tagLine i rawLine ps =
     (let line = trim rawLine
      in if line = [] then ps
         else if startsWith line ''*'' then ps
         else
           (let mtch = getFirstMatch line (map fst (blocks ps))
            in pushLine i line
                 (handleMatch mtch
                   (handleAbilityEnd mtch
                     (handleTop mtch
                       (handleOther line mtch
                         (handleFeatures line mtch ps)))))))"

fun tagLines :: "nat \<Rightarrow> string list \<Rightarrow> parseState \<Rightarrow> parseState" where
  "tagLines i [] ps = ps"
| "tagLines i (l # ls) ps = tagLines (Suc i) ls (tagLine i l ps)"

definition parseIntoBlocks :: "string list \<Rightarrow> blocks" where
  "parseIntoBlocks lines = blocks (tagLines 0 lines initialState)"

subsection \<open>The extractors\<close>

text \<open>
  Every extractor opens with \<open>const x = blocks.get(id); if (!x || !x.length) return d\<close> and
  then reads \<open>x[0].line\<close> (the named-entry extractor and the ability extractor read all
  of \<open>x\<close>). \<open>firstLine\<close> is that opening: the line of the first entry, if there is one.
\<close>

definition firstLine :: "blocks \<Rightarrow> blockId \<Rightarrow> string option" where
  "firstLine bs b =
     (case map_of bs b of
        None \<Rightarrow> None
      | Some [] \<Rightarrow> None
      | Some (e # _) \<Rightarrow> Some (snd e))"

definition firstLineMatch :: "blocks \<Rightarrow> blockId \<Rightarrow> regexp \<Rightarrow> mstate option" where
  "firstLineMatch bs b R =
     (case firstLine bs b of
        None \<Rightarrow> None
      | Some line \<Rightarrow> strMatch line R)"

definition extractType :: "blocks \<Rightarrow> string" where
  "extractType bs =
     (case firstLineMatch bs RacialDetails rx_racialDetails of
        None \<Rightarrow> []
      | Some m \<Rightarrow> toLowerCase (groupOr m 2))"

definition extractSize :: "blocks \<Rightarrow> string" where
  "extractSize bs =
     (case firstLineMatch bs RacialDetails rx_racialDetails of
        None \<Rightarrow> []
      | Some m \<Rightarrow> toLowerCase (groupOr m 1))"

definition extractAlignment :: "blocks \<Rightarrow> string" where
  "extractAlignment bs =
     (case firstLineMatch bs RacialDetails rx_racialDetails of
        None \<Rightarrow> []
      | Some m \<Rightarrow> toLowerCase (groupOr m 5))"

record valueFormula =
  val :: number
  formula :: string

definition extractAC :: "blocks \<Rightarrow> valueFormula" where
  "extractAC bs =
     (case firstLineMatch bs Armor rx_armor of
        None \<Rightarrow> \<lparr>val = Num 10, formula = []\<rparr>
      | Some m \<Rightarrow> \<lparr>val = parseInt (groupOr m 1), formula = groupOr m 2\<rparr>)"

definition extractHP :: "blocks \<Rightarrow> valueFormula" where
  "extractHP bs =
     (case firstLineMatch bs Health rx_health of
        None \<Rightarrow> \<lparr>val = Num 0, formula = []\<rparr>
      | Some m \<Rightarrow> \<lparr>val = parseInt (groupOr m 1), formula = groupOr m 2\<rparr>)"

definition rx_feet :: rx where
  "rx_feet = Opt (Alt (Seq (Lit ''ft'') (Opt (Lit ''.''))) (Lit ''feet''))"

definition rx_speedType :: regexp where
  "rx_speedType = regex_i (seqs
     [Bol, Opt (Seq (Grp 1 (Plus (Cls [ClsW]))) (Plus sp)), Grp 2 (Plus (Cls [ClsD])), Star sp,
      rx_feet, Eol])"

record speedItem =
  speedType :: string
  speedValue :: number

definition extractSpeed :: "blocks \<Rightarrow> speedItem list" where
  "extractSpeed bs =
     (case firstLineMatch bs Speed rx_speed of
        None \<Rightarrow> []
      | Some m \<Rightarrow>
          concat (map (\<lambda>speedType.
                    case strMatch speedType rx_speedType of
                      None \<Rightarrow> []
                    | Some tm \<Rightarrow>
                        [\<lparr>speedType = (case group tm 1 of
                                          None \<Rightarrow> ''walk''
                                        | Some t \<Rightarrow> toLowerCase t),
                          speedValue = parseInt (groupOr tm 2)\<rparr>])
                  (map trim (split CHR '','' (groupOr m 1)))))"

text \<open>The ability scores are an object keyed by the lower-cased abbreviation.\<close>

definition extractAbilities :: "blocks \<Rightarrow> (string \<times> number) list" where
  "extractAbilities bs =
     (case map_of bs Abilities of
        None \<Rightarrow> []
      | Some es \<Rightarrow>
          foldl (\<lambda>abilityScores ability.
                   case strMatch (snd ability) rx_abilities of
                     None \<Rightarrow> abilityScores
                   | Some m \<Rightarrow>
                       AList.update (toLowerCase (groupOr m 1)) (parseInt (groupOr m 2))
                         abilityScores)
                [] es)"

definition rx_signed :: rx where
  "rx_signed = Seq (Cls [Ch CHR ''+'', Ch CHR ''-'']) (Plus dg)"

definition rx_saveType :: regexp where
  "rx_saveType = regex_i (seqs
     [Bol, Grp 1 (Rep 3 (Some 3) (Cls [ClsW])), Plus sp, Grp 2 rx_signed, Eol])"

record saveItem =
  ability :: string
  bonus :: number

definition extractSavingThrows :: "blocks \<Rightarrow> saveItem list" where
  "extractSavingThrows bs =
     (case firstLineMatch bs SavingThrows rx_savingThrows of
        None \<Rightarrow> []
      | Some m \<Rightarrow>
          concat (map (\<lambda>saveType.
                    case strMatch saveType rx_saveType of
                      None \<Rightarrow> []
                    | Some tm \<Rightarrow>
                        [\<lparr>ability = toLowerCase (groupOr tm 1),
                          bonus = parseInt (groupOr tm 2)\<rparr>])
                  (map trim (split CHR '','' (groupOr m 1)))))"

definition rx_skillType :: regexp where
  "rx_skillType = regex_i (seqs
     [Bol, Grp 1 (Plus (Cls [ClsW, ClsS])), Plus sp, Grp 2 rx_signed, Eol])"

record skillItem =
  skillName :: string
  skillBonus :: number

definition extractSkills :: "blocks \<Rightarrow> skillItem list" where
  "extractSkills bs =
     (case firstLineMatch bs Skills rx_skills of
        None \<Rightarrow> []
      | Some m \<Rightarrow>
          concat (map (\<lambda>skillType.
                    case strMatch skillType rx_skillType of
                      None \<Rightarrow> []
                    | Some tm \<Rightarrow>
                        [\<lparr>skillName = trim (groupOr tm 1),
                          skillBonus = parseInt (groupOr tm 2)\<rparr>])
                  (map trim (split CHR '','' (groupOr m 1)))))"

text \<open>\<open>regexMap[blockId]\<close> of \<open>_extractDamageCondition\<close>.\<close>

fun regexMap :: "blockId \<Rightarrow> regexp option" where
  "regexMap DamageVulnerabilities = Some rx_damageVulnerabilities"
| "regexMap DamageResistances = Some rx_damageResistances"
| "regexMap DamageImmunities = Some rx_damageImmunities"
| "regexMap ConditionImmunities = Some rx_conditionImmunities"
| "regexMap Immunities2024 = Some rx_immunities2024"
| "regexMap _ = None"

definition extractDamageCondition :: "blocks \<Rightarrow> blockId \<Rightarrow> string list" where
  "extractDamageCondition bs b =
     (case regexMap b of
        None \<Rightarrow> []
      | Some R \<Rightarrow>
          (case firstLineMatch bs b R of
             None \<Rightarrow> []
           | Some m \<Rightarrow> map (\<lambda>item. toLowerCase (trim item)) (split CHR '','' (groupOr m 1))))"

definition extractDamageVulnerabilities :: "blocks \<Rightarrow> string list" where
  "extractDamageVulnerabilities bs = extractDamageCondition bs DamageVulnerabilities"

definition extractDamageResistances :: "blocks \<Rightarrow> string list" where
  "extractDamageResistances bs = extractDamageCondition bs DamageResistances"

definition extractDamageImmunities :: "blocks \<Rightarrow> string list" where
  "extractDamageImmunities bs = extractDamageCondition bs DamageImmunities"

definition extractConditionImmunities :: "blocks \<Rightarrow> string list" where
  "extractConditionImmunities bs = extractDamageCondition bs ConditionImmunities"

definition rx_senseType :: regexp where
  "rx_senseType = regex_i (seqs
     [Bol, Grp 1 (Plus (Cls [ClsW, ClsS])), Plus sp, Grp 2 (Plus (Cls [ClsD])), Star sp,
      rx_feet, Eol])"

datatype sense = Ranged string number | Special string

definition extractSenses :: "blocks \<Rightarrow> sense list" where
  "extractSenses bs =
     (case firstLineMatch bs Senses rx_senses of
        None \<Rightarrow> []
      | Some m \<Rightarrow>
          map (\<lambda>senseType.
                 case strMatch senseType rx_senseType of
                   None \<Rightarrow> Special (toLowerCase senseType)
                 | Some tm \<Rightarrow> Ranged (toLowerCase (trim (groupOr tm 1))) (parseInt (groupOr tm 2)))
              (map trim (split CHR '','' (groupOr m 1))))"

definition extractLanguages :: "blocks \<Rightarrow> string list" where
  "extractLanguages bs =
     (case firstLineMatch bs Languages rx_languages of
        None \<Rightarrow> []
      | Some m \<Rightarrow> map trim (split CHR '','' (groupOr m 1)))"

record challengeRating =
  cr :: number
  xp :: number

definition rx_xp :: regexp where
  "rx_xp = regex (Grp 1 (Seq (Plus dg) (Star (Seq (Lit '','') (Plus dg)))))"

text \<open>
  The rating of \<open>_extractChallenge\<close>: a text with a slash is split at the slashes and the
  first two pieces are parsed and divided; a piece that is missing is \<open>undefined\<close>, which
  makes the quotient NaN.
\<close>

definition crOf :: "string \<Rightarrow> number" where
  "crOf crString =
     (if includesChar crString CHR ''/''
      then (case map parseInt (split CHR ''/'' crString) of
              numerator # denominator # _ \<Rightarrow> numDiv numerator denominator
            | _ \<Rightarrow> NaN)
      else parseInt crString)"

definition xpOf :: "string \<Rightarrow> number" where
  "xpOf text =
     (case strMatch text rx_xp of
        None \<Rightarrow> Num 0
      | Some xm \<Rightarrow> parseInt (filter (\<lambda>c. c \<noteq> CHR '','') (groupOr xm 1)))"

definition extractChallenge :: "blocks \<Rightarrow> challengeRating" where
  "extractChallenge bs =
     (case firstLineMatch bs Challenge rx_challenge of
        None \<Rightarrow> \<lparr>cr = Num 0, xp = Num 0\<rparr>
      | Some m \<Rightarrow> \<lparr>cr = crOf (groupOr m 1), xp = xpOf (groupOr m 2)\<rparr>)"

record namedEntry =
  entryName :: string
  description :: string

definition rx_title :: regexp where
  "rx_title = regex_i (seqs
     [Bol, Grp 1 (Plus (NCls [Ch CHR ''.''])), Lit ''.'', Grp 2 (Star Dot)])"

text \<open>
  The loop of \<open>_extractNamedEntries\<close> over the lines after the first: its state is the
  list \<open>result\<close> and the entry \<open>currentEntry\<close>, which is \<open>null\<close> until a title has been seen.
\<close>

fun namedEntriesLoop :: "string list \<Rightarrow> namedEntry list \<Rightarrow> namedEntry option \<Rightarrow> namedEntry list" where
  "namedEntriesLoop [] result currentEntry =
     (case currentEntry of None \<Rightarrow> result | Some e \<Rightarrow> result @ [e])"
| "namedEntriesLoop (line # rest) result currentEntry =
     (case strMatch line rx_title of
        Some titleMatch \<Rightarrow>
          namedEntriesLoop rest
            (case currentEntry of None \<Rightarrow> result | Some e \<Rightarrow> result @ [e])
            (Some \<lparr>entryName = trim (groupOr titleMatch 1),
                    description = trim (groupOr titleMatch 2)\<rparr>)
      | None \<Rightarrow>
          (case currentEntry of
             Some e \<Rightarrow>
               namedEntriesLoop rest result (Some (e\<lparr>description := description e @ '' '' @ line\<rparr>))
           | None \<Rightarrow> namedEntriesLoop rest result None))"

definition extractNamedEntries :: "blocks \<Rightarrow> blockId \<Rightarrow> namedEntry list" where
  "extractNamedEntries bs b =
     (case map_of bs b of
        None \<Rightarrow> []
      | Some [] \<Rightarrow> []
      | Some (header # entries) \<Rightarrow> namedEntriesLoop (map snd entries) [] None)"

definition extractFeatures :: "blocks \<Rightarrow> namedEntry list" where
  "extractFeatures bs = extractNamedEntries bs Features"

definition extractActions :: "blocks \<Rightarrow> namedEntry list" where
  "extractActions bs = extractNamedEntries bs Actions"

definition extractBonusActions :: "blocks \<Rightarrow> namedEntry list" where
  "extractBonusActions bs = extractNamedEntries bs BonusActions"

definition extractReactions :: "blocks \<Rightarrow> namedEntry list" where
  "extractReactions bs = extractNamedEntries bs Reactions"

definition extractLegendaryActions :: "blocks \<Rightarrow> namedEntry list" where
  "extractLegendaryActions bs = extractNamedEntries bs LegendaryActions"

definition extractLairActions :: "blocks \<Rightarrow> namedEntry list" where
  "extractLairActions bs = extractNamedEntries bs LairActions"

definition extractMythicActions :: "blocks \<Rightarrow> namedEntry list" where
  "extractMythicActions bs = extractNamedEntries bs MythicActions"

definition extractVillainActions :: "blocks \<Rightarrow> namedEntry list" where
  "extractVillainActions bs = extractNamedEntries bs VillainActions"

definition extractOtherInfo :: "blocks \<Rightarrow> string list" where
  "extractOtherInfo bs =
     (case map_of bs OtherBlock of
        None \<Rightarrow> []
      | Some es \<Rightarrow> map snd es)"

subsection \<open>The monster record\<close>

record monsterData =
  name :: string
  type' :: string
  size' :: string
  alignment :: string
  ac :: valueFormula
  hp :: valueFormula
  speed :: "speedItem list"
  abilities :: "(string \<times> number) list"
  savingThrows :: "saveItem list"
  skills :: "skillItem list"
  damageVulnerabilities :: "string list"
  damageResistances :: "string list"
  damageImmunities :: "string list"
  conditionImmunities :: "string list"
  senses :: "sense list"
  languages :: "string list"
  challenge :: challengeRating
  features :: "namedEntry list"
  actions :: "namedEntry list"
  bonusActions :: "namedEntry list"
  reactions :: "namedEntry list"
  legendaryActions :: "namedEntry list"
  lairActions :: "namedEntry list"
  mythicActions :: "namedEntry list"
  villainActions :: "namedEntry list"
  otherInfo :: "string list"

datatype error = Error string

text \<open>
  \<open>spbiUtils.stripMarkdownAndCleanInput\<close> is not part of the sources at hand; the parser
  takes it as the parameter \<open>strip\<close>. The expression \<open>removeNewLines\<close> is the one shared
  expression of the parser that carries the flag \<open>g\<close>, so its \<open>lastIndex\<close> is the state
  that a call of the parser takes and returns.
\<close>

definition cleanInput :: "(string \<Rightarrow> string) \<Rightarrow> string \<Rightarrow> nat \<Rightarrow> string \<times> nat" where
  "cleanInput strip text lastIndex =
     replaceAll (strip text) rx_removeNewLines (\<lambda>m. groupOr m 1 @ '' '') lastIndex"

definition assemble :: "string \<Rightarrow> blocks \<Rightarrow> monsterData" where
  "assemble nm bs =
     \<lparr>name = nm,
      type' = extractType bs,
      size' = extractSize bs,
      alignment = extractAlignment bs,
      ac = extractAC bs,
      hp = extractHP bs,
      speed = extractSpeed bs,
      abilities = extractAbilities bs,
      savingThrows = extractSavingThrows bs,
      skills = extractSkills bs,
      damageVulnerabilities = extractDamageVulnerabilities bs,
      damageResistances = extractDamageResistances bs,
      damageImmunities = extractDamageImmunities bs,
      conditionImmunities = extractConditionImmunities bs,
      senses = extractSenses bs,
      languages = extractLanguages bs,
      challenge = extractChallenge bs,
      features = extractFeatures bs,
      actions = extractActions bs,
      bonusActions = extractBonusActions bs,
      reactions = extractReactions bs,
      legendaryActions = extractLegendaryActions bs,
      lairActions = extractLairActions bs,
      mythicActions = extractMythicActions bs,
      villainActions = extractVillainActions bs,
      otherInfo = extractOtherInfo bs\<rparr>"

definition cleanedLines :: "string \<Rightarrow> string list" where
  "cleanedLines cleanedText =
     filter (\<lambda>line. length line > 0) (map trim (split (CHR 0x0A) cleanedText))"

definition parseMonster :: "(string \<Rightarrow> string) \<Rightarrow> string \<Rightarrow> nat \<Rightarrow> (error + monsterData) \<times> nat" where
  "parseMonster strip content lastIndex =
     (let (cleanedText, lastIndex') = cleanInput strip content lastIndex
      in case cleanedLines cleanedText of
           [] \<Rightarrow> (Inl (Error ''No content to parse''), lastIndex')
         | nm # lines \<Rightarrow> (Inr (assemble nm (parseIntoBlocks lines)), lastIndex'))"

section \<open>The content detector\<close>












datatype contentType = Spell | Item | Monster | ClassFeature | Feat | Background



definition abilityWords :: "string list" where
  "abilityWords = [''str'', ''dex'', ''con'', ''int'', ''wis'', ''cha'']"



















record contentBlock =
  blockType :: contentType
  content :: string




section \<open>Notions of the specification\<close>

text \<open>A line has the title shape when the title pattern of \<open>_extractNamedEntries\<close> matches it.\<close>

definition isTitle :: "string \<Rightarrow> bool" where
  "isTitle line = (strMatch line rx_title \<noteq> None)"

text \<open>
  The named entries as the specification words them: a line of the title shape starts a
  new entry, and every following line without that shape, up to the next title line or
  the end of the section, is appended to the description after a single space.
\<close>

fun entriesSpec :: "string list \<Rightarrow> namedEntry list" where
  "entriesSpec [] = []"
| "entriesSpec (line # rest) =
     (case strMatch line rx_title of
        None \<Rightarrow> entriesSpec rest
      | Some t \<Rightarrow>
          \<lparr>entryName = trim (groupOr t 1),
           description = foldl (\<lambda>d l. d @ '' '' @ l) (trim (groupOr t 2))
                           (takeWhile (\<lambda>l. \<not> isTitle l) rest)\<rparr>
          # entriesSpec rest)"

text \<open>
  A section is missing or unmatched when the block map has no entry for it, or an empty
  one, or its first line does not match the section's pattern.
\<close>

definition missing :: "blocks \<Rightarrow> blockId \<Rightarrow> regexp \<Rightarrow> bool" where
  "missing bs b R = (firstLineMatch bs b R = None)"

definition absent :: "blocks \<Rightarrow> blockId \<Rightarrow> bool" where
  "absent bs b = (map_of bs b = None \<or> map_of bs b = Some [])"

text \<open>The typed default of every section of the record, for the sections that are missing or unmatched.\<close>

definition typedDefaults :: "blocks \<Rightarrow> monsterData \<Rightarrow> bool" where
  "typedDefaults bs r =
     ((missing bs RacialDetails rx_racialDetails \<longrightarrow>
         type' r = [] \<and> size' r = [] \<and> alignment r = [])
      \<and> (missing bs Armor rx_armor \<longrightarrow> ac r = \<lparr>val = Num 10, formula = []\<rparr>)
      \<and> (missing bs Health rx_health \<longrightarrow> hp r = \<lparr>val = Num 0, formula = []\<rparr>)
      \<and> (missing bs Speed rx_speed \<longrightarrow> speed r = [])
      \<and> (absent bs Abilities \<longrightarrow> abilities r = [])
      \<and> (missing bs SavingThrows rx_savingThrows \<longrightarrow> savingThrows r = [])
      \<and> (missing bs Skills rx_skills \<longrightarrow> skills r = [])
      \<and> (missing bs DamageVulnerabilities rx_damageVulnerabilities \<longrightarrow>
           damageVulnerabilities r = [])
      \<and> (missing bs DamageResistances rx_damageResistances \<longrightarrow> damageResistances r = [])
      \<and> (missing bs DamageImmunities rx_damageImmunities \<longrightarrow> damageImmunities r = [])
      \<and> (missing bs ConditionImmunities rx_conditionImmunities \<longrightarrow>
           conditionImmunities r = [])
      \<and> (missing bs Senses rx_senses \<longrightarrow> senses r = [])
      \<and> (missing bs Languages rx_languages \<longrightarrow> languages r = [])
      \<and> (missing bs Challenge rx_challenge \<longrightarrow> challenge r = \<lparr>cr = Num 0, xp = Num 0\<rparr>)
      \<and> (absent bs Features \<longrightarrow> features r = [])
      \<and> (absent bs Actions \<longrightarrow> actions r = [])
      \<and> (absent bs BonusActions \<longrightarrow> bonusActions r = [])
      \<and> (absent bs Reactions \<longrightarrow> reactions r = [])
      \<and> (absent bs LegendaryActions \<longrightarrow> legendaryActions r = [])
      \<and> (absent bs LairActions \<longrightarrow> lairActions r = [])
      \<and> (absent bs MythicActions \<longrightarrow> mythicActions r = [])
      \<and> (absent bs VillainActions \<longrightarrow> villainActions r = [])
      \<and> (absent bs OtherBlock \<longrightarrow> otherInfo r = []))"



text \<open>
  What an ability line contributes to the ability scores: the lower-cased abbreviation
  and the score, when the ability pattern matches the line.
\<close>

definition abilityOf :: "string \<Rightarrow> (string \<times> number) option" where
  "abilityOf line =
     (case strMatch line rx_abilities of
        None \<Rightarrow> None
      | Some m \<Rightarrow> Some (toLowerCase (groupOr m 1), parseInt (groupOr m 2)))"

definition sectionEntries :: "blocks \<Rightarrow> blockId \<Rightarrow> entry list" where
  "sectionEntries bs b = (case map_of bs b of None \<Rightarrow> [] | Some es \<Rightarrow> es)"

text \<open>
  An ability line is a line whose trimmed text matches the ability pattern. Its first
  three characters are then one of the six abbreviations in any case, which no other
  header pattern accepts as the start of its own literal.
\<close>

definition isAbilityLine :: "string \<Rightarrow> bool" where
  "isAbilityLine l = (strMatch (trim l) rx_abilities \<noteq> None)"

definition isAbbrev :: "string \<Rightarrow> bool" where
  "isAbbrev w = (\<exists>a \<in> set abilityWords. list_all2 (\<lambda>x y. canonicalize x = canonicalize y) a w)"

definition headLiterals :: "string list" where
  "headLiterals = [''actions'', ''armor'', ''bonus'', ''challenge'', ''condition'', ''damage'',
     ''immunities'', ''hit'', ''lair'', ''languages'', ''legendary'', ''mythic'', ''reactions'',
     ''saving'', ''senses'', ''skills'', ''speed'', ''villain'', ''tiny'', ''small'', ''medium'',
     ''large'', ''huge'', ''gargantuan'']"

(*PROPERTIES*)
section \<open>Named entries\<close>

lemma namedEntriesLoop_spec:
  "namedEntriesLoop ls result None = result @ entriesSpec ls"
  "namedEntriesLoop ls result (Some e) =
     result @ e\<lparr>description := foldl (\<lambda>d l. d @ '' '' @ l) (description e)
                                    (takeWhile (\<lambda>l. \<not> isTitle l) ls)\<rparr> # entriesSpec ls"
proof (induction ls arbitrary: result e)
  case Nil
  {
    case 1
    show ?case by simp
  next
    case 2
    show ?case by simp
  }
next
  case (Cons line rest)
  {
    case 1
    show ?case
      by (cases "strMatch line rx_title") (simp_all add: Cons.IH)
  next
    case 2
    show ?case
      by (cases "strMatch line rx_title") (simp_all add: Cons.IH isTitle_def)
  }
qed

lemma entriesSpec_length: "length (entriesSpec ls) = length (filter isTitle ls)"
  by (induction ls) (auto simp: isTitle_def split: option.splits)

lemma entriesSpec_skip: "\<forall>l \<in> set pre. \<not> isTitle l \<Longrightarrow> entriesSpec (pre @ rest) = entriesSpec rest"
  by (induction pre) (auto simp: isTitle_def split: option.splits)

lemma extractNamedEntries_spec:
  "map_of bs b = Some (header # entries) \<Longrightarrow>
     extractNamedEntries bs b = entriesSpec (map snd entries)"
  by (simp add: extractNamedEntries_def namedEntriesLoop_spec)

text \<open>
  Claim C4. The section made of the header \<open>Actions\<close> and the two content lines
  \<open>Multiattack. The creature makes two attacks.\<close> and \<open>Bite. Melee Weapon Attack: +5 to hit...\<close>
  yields exactly two entries; and in general the entries extracted from a section are
  those of the lines after its header as the specification describes them: a line of
  the title shape starts an entry, and each following line without that shape is
  appended to its description after a single space, until the next title line or the end.
\<close>

theorem named_entries_continuation:
  "extractNamedEntries
     [(Actions, [(0, ''Actions''),
                 (1, ''Multiattack. The creature makes two attacks.''),
                 (2, ''Bite. Melee Weapon Attack: +5 to hit...'')])] Actions
   = [\<lparr>entryName = ''Multiattack'', description = ''The creature makes two attacks.''\<rparr>,
      \<lparr>entryName = ''Bite'', description = ''Melee Weapon Attack: +5 to hit...''\<rparr>]
   \<and> (\<forall>bs b header entries.
         map_of bs b = Some (header # entries) \<longrightarrow>
         extractNamedEntries bs b = entriesSpec (map snd entries))"
proof
  show "extractNamedEntries
     [(Actions, [(0, ''Actions''),
                 (1, ''Multiattack. The creature makes two attacks.''),
                 (2, ''Bite. Melee Weapon Attack: +5 to hit...'')])] Actions
   = [\<lparr>entryName = ''Multiattack'', description = ''The creature makes two attacks.''\<rparr>,
      \<lparr>entryName = ''Bite'', description = ''Melee Weapon Attack: +5 to hit...''\<rparr>]"
    by code_simp
  show "\<forall>bs b header entries.
         map_of bs b = Some (header # entries) \<longrightarrow>
         extractNamedEntries bs b = entriesSpec (map snd entries)"
    by (simp add: extractNamedEntries_spec)
qed

theorem named_entries_continuation_witness:
  "map_of [(Features, [(0, ''Traits''), (1, ''Keen Smell. The wolf has advantage''),
                       (2, ''on Wisdom checks''), (3, ''Pack Tactics. It hunts.'')])] Features
   = Some ((0, ''Traits'') # [(1, ''Keen Smell. The wolf has advantage''),
                             (2, ''on Wisdom checks''), (3, ''Pack Tactics. It hunts.'')])
   \<and> extractNamedEntries
       [(Features, [(0, ''Traits''), (1, ''Keen Smell. The wolf has advantage''),
                    (2, ''on Wisdom checks''), (3, ''Pack Tactics. It hunts.'')])] Features
     = [\<lparr>entryName = ''Keen Smell'',
         description = ''The wolf has advantage on Wisdom checks''\<rparr>,
        \<lparr>entryName = ''Pack Tactics'', description = ''It hunts.''\<rparr>]"
proof -
  let ?es = "[(1::nat, ''Keen Smell. The wolf has advantage''),
              (2, ''on Wisdom checks''), (3, ''Pack Tactics. It hunts.'')]"
  let ?bs = "[(Features, (0, ''Traits'') # ?es)]"
  have m: "map_of ?bs Features = Some ((0, ''Traits'') # ?es)"
    by simp
  have "extractNamedEntries ?bs Features = entriesSpec (map snd ?es)"
    using named_entries_continuation m by blast
  moreover have "entriesSpec (map snd ?es)
     = [\<lparr>entryName = ''Keen Smell'',
         description = ''The wolf has advantage on Wisdom checks''\<rparr>,
        \<lparr>entryName = ''Pack Tactics'', description = ''It hunts.''\<rparr>]"
    by code_simp
  ultimately show ?thesis
    using m by simp
qed

text \<open>
  Claim C10. The first line of a section's buffer is skipped as its header, and the
  lines after it that come before the first line of the title shape belong to no entry:
  the result is that of any other header followed by the remaining lines alone, and it
  has one entry for each title line among those. So when the first line is itself a
  titled entry, there are fewer entries than title lines: that entry is not in the result.
\<close>

theorem header_and_leading_lines_skipped:
  assumes "map_of bs b = Some (first # pre @ rest)"
    and "\<forall>e \<in> set pre. \<not> isTitle (snd e)"
  shows "extractNamedEntries bs b = extractNamedEntries [(b, other # rest)] b
    \<and> length (extractNamedEntries bs b) = length (filter (\<lambda>e. isTitle (snd e)) rest)
    \<and> (isTitle (snd first) \<longrightarrow>
         length (extractNamedEntries bs b)
           < length (filter (\<lambda>e. isTitle (snd e)) (first # pre @ rest)))"
proof -
  have skip: "\<forall>l \<in> set (map snd pre). \<not> isTitle l"
    using assms(2) by simp
  have eq: "extractNamedEntries bs b = entriesSpec (map snd rest)"
    using extractNamedEntries_spec [OF assms(1)] entriesSpec_skip [OF skip] by simp
  have other: "extractNamedEntries [(b, other # rest)] b = entriesSpec (map snd rest)"
    by (simp add: extractNamedEntries_spec)
  have len: "length (entriesSpec (map snd rest)) = length (filter (\<lambda>e. isTitle (snd e)) rest)"
    by (simp add: entriesSpec_length filter_map comp_def)
  have pre: "filter (\<lambda>e. isTitle (snd e)) pre = []"
    using assms(2) by (simp add: filter_empty_conv)
  show ?thesis
    using eq other len pre by simp
qed

theorem header_and_leading_lines_skipped_witness:
  "map_of [(Features, [(0, ''Keen Smell. The wolf has advantage''), (1, ''on Wisdom checks''),
                       (2, ''Pack Tactics. It hunts.'')])] Features
   = Some ((0, ''Keen Smell. The wolf has advantage'') # [(1, ''on Wisdom checks'')]
           @ [(2, ''Pack Tactics. It hunts.'')])
   \<and> \<not> isTitle ''on Wisdom checks''
   \<and> isTitle ''Keen Smell. The wolf has advantage''
   \<and> isTitle ''Pack Tactics. It hunts.''
   \<and> extractNamedEntries
       [(Features, [(0, ''Keen Smell. The wolf has advantage''), (1, ''on Wisdom checks''),
                    (2, ''Pack Tactics. It hunts.'')])] Features
     = [\<lparr>entryName = ''Pack Tactics'', description = ''It hunts.''\<rparr>]
   \<and> length (extractNamedEntries
       [(Features, [(0, ''Keen Smell. The wolf has advantage''), (1, ''on Wisdom checks''),
                    (2, ''Pack Tactics. It hunts.'')])] Features)
     < length (filter (\<lambda>e. isTitle (snd e))
         ((0, ''Keen Smell. The wolf has advantage'') # [(1::nat, ''on Wisdom checks'')]
           @ [(2, ''Pack Tactics. It hunts.'')]))"
proof -
  let ?first = "(0::nat, ''Keen Smell. The wolf has advantage'')"
  let ?pre = "[(1::nat, ''on Wisdom checks'')]"
  let ?rest = "[(2::nat, ''Pack Tactics. It hunts.'')]"
  let ?bs = "[(Features, ?first # ?pre @ ?rest)]"
  have m: "map_of ?bs Features = Some (?first # ?pre @ ?rest)"
    by simp
  have p: "\<forall>e \<in> set ?pre. \<not> isTitle (snd e)"
    by code_simp
  have t: "isTitle (snd ?first)" "isTitle ''Pack Tactics. It hunts.''"
    by code_simp+
  have r: "extractNamedEntries [(Features, (9, ''Traits'') # ?rest)] Features
           = [\<lparr>entryName = ''Pack Tactics'', description = ''It hunts.''\<rparr>]"
    by code_simp
  note h = header_and_leading_lines_skipped [OF m p, of "(9, ''Traits'')"]
  show ?thesis
    using h m p t r by simp
qed

section \<open>Failure and defaults of the parser\<close>

lemma fst_parseMonster:
  "fst (parseMonster strip input li) =
     (case cleanedLines (fst (cleanInput strip input li)) of
        [] \<Rightarrow> Inl (Error ''No content to parse'')
      | nm # lines \<Rightarrow> Inr (assemble nm (parseIntoBlocks lines)))"
  by (simp add: parseMonster_def case_prod_unfold split: list.split)

lemma cleanedLines_empty:
  "cleanedLines t = [] \<longleftrightarrow> (\<forall>l \<in> set (split (CHR 0x0A) t). trim l = [])"
  by (auto simp: cleanedLines_def filter_empty_conv)

lemma assemble_scalars:
  "missing bs RacialDetails rx_racialDetails \<Longrightarrow>
     type' (assemble nm bs) = [] \<and> size' (assemble nm bs) = [] \<and> alignment (assemble nm bs) = []"
  "missing bs Armor rx_armor \<Longrightarrow> ac (assemble nm bs) = \<lparr>val = Num 10, formula = []\<rparr>"
  "missing bs Health rx_health \<Longrightarrow> hp (assemble nm bs) = \<lparr>val = Num 0, formula = []\<rparr>"
  "missing bs Challenge rx_challenge \<Longrightarrow> challenge (assemble nm bs) = \<lparr>cr = Num 0, xp = Num 0\<rparr>"
  by (simp_all add: assemble_def missing_def extractType_def extractSize_def
      extractAlignment_def extractAC_def extractHP_def extractChallenge_def)

lemma assemble_lists:
  "missing bs Speed rx_speed \<Longrightarrow> speed (assemble nm bs) = []"
  "missing bs SavingThrows rx_savingThrows \<Longrightarrow> savingThrows (assemble nm bs) = []"
  "missing bs Skills rx_skills \<Longrightarrow> skills (assemble nm bs) = []"
  "missing bs Senses rx_senses \<Longrightarrow> senses (assemble nm bs) = []"
  "missing bs Languages rx_languages \<Longrightarrow> languages (assemble nm bs) = []"
  "absent bs Abilities \<Longrightarrow> abilities (assemble nm bs) = []"
  "absent bs OtherBlock \<Longrightarrow> otherInfo (assemble nm bs) = []"
  by (auto simp: assemble_def missing_def absent_def extractSpeed_def extractSavingThrows_def
      extractSkills_def extractSenses_def extractLanguages_def extractAbilities_def
      extractOtherInfo_def)

lemma assemble_damage:
  "missing bs DamageVulnerabilities rx_damageVulnerabilities \<Longrightarrow>
     damageVulnerabilities (assemble nm bs) = []"
  "missing bs DamageResistances rx_damageResistances \<Longrightarrow> damageResistances (assemble nm bs) = []"
  "missing bs DamageImmunities rx_damageImmunities \<Longrightarrow> damageImmunities (assemble nm bs) = []"
  "missing bs ConditionImmunities rx_conditionImmunities \<Longrightarrow>
     conditionImmunities (assemble nm bs) = []"
  by (simp_all add: assemble_def missing_def extractDamageCondition_def
      extractDamageVulnerabilities_def extractDamageResistances_def
      extractDamageImmunities_def extractConditionImmunities_def)

lemma extractNamedEntries_absent: "absent bs b \<Longrightarrow> extractNamedEntries bs b = []"
  by (auto simp: absent_def extractNamedEntries_def)

lemma assemble_entries:
  "absent bs Features \<Longrightarrow> features (assemble nm bs) = []"
  "absent bs Actions \<Longrightarrow> actions (assemble nm bs) = []"
  "absent bs BonusActions \<Longrightarrow> bonusActions (assemble nm bs) = []"
  "absent bs Reactions \<Longrightarrow> reactions (assemble nm bs) = []"
  "absent bs LegendaryActions \<Longrightarrow> legendaryActions (assemble nm bs) = []"
  "absent bs LairActions \<Longrightarrow> lairActions (assemble nm bs) = []"
  "absent bs MythicActions \<Longrightarrow> mythicActions (assemble nm bs) = []"
  "absent bs VillainActions \<Longrightarrow> villainActions (assemble nm bs) = []"
  by (simp_all add: assemble_def extractNamedEntries_absent extractFeatures_def
      extractActions_def extractBonusActions_def extractReactions_def
      extractLegendaryActions_def extractLairActions_def extractMythicActions_def
      extractVillainActions_def)

lemma typedDefaults_assemble: "typedDefaults bs (assemble nm bs)"
  unfolding typedDefaults_def
  by (intro conjI impI assemble_scalars assemble_lists assemble_damage assemble_entries)

text \<open>
  Claim C1. \<open>parseMonster\<close> raises \<open>No content to parse\<close> exactly when every line of the
  cleaned input is blank. When some line is not blank it returns a record, named by
  the first such line, in which every section that is missing or unmatched in the
  tagged lines has its typed default.
\<close>

theorem parseMonster_failure_semantics:
  "(fst (parseMonster strip input li) = Inl (Error ''No content to parse'')
      \<longleftrightarrow> (\<forall>l \<in> set (split (CHR 0x0A) (fst (cleanInput strip input li))). trim l = []))
   \<and> ((\<exists>l \<in> set (split (CHR 0x0A) (fst (cleanInput strip input li))). trim l \<noteq> []) \<longrightarrow>
        (\<exists>r nm lines.
           cleanedLines (fst (cleanInput strip input li)) = nm # lines
           \<and> fst (parseMonster strip input li) = Inr r
           \<and> name r = nm
           \<and> typedDefaults (parseIntoBlocks lines) r))"
proof (cases "cleanedLines (fst (cleanInput strip input li))")
  case Nil
  then show ?thesis
    using cleanedLines_empty [of "fst (cleanInput strip input li)"]
    by (simp add: fst_parseMonster)
next
  case (Cons nm lines)
  then have "\<not> (\<forall>l \<in> set (split (CHR 0x0A) (fst (cleanInput strip input li))). trim l = [])"
    using cleanedLines_empty [of "fst (cleanInput strip input li)"] by simp
  moreover have "name (assemble nm (parseIntoBlocks lines)) = nm"
    by (simp add: assemble_def)
  ultimately show ?thesis
    using Cons typedDefaults_assemble [of "parseIntoBlocks lines" nm]
    by (simp add: fst_parseMonster)
qed

theorem parseMonster_failure_semantics_witness:
  "trim ''Goblin'' \<noteq> []
   \<and> fst (parseMonster id ''Goblin'' 0) \<noteq> Inl (Error ''No content to parse'')
   \<and> fst (parseMonster id ''Goblin'' 0) =
       Inr \<lparr>name = ''Goblin'', type' = [], size' = [], alignment = [],
            ac = \<lparr>val = Num 10, formula = []\<rparr>, hp = \<lparr>val = Num 0, formula = []\<rparr>,
            speed = [], abilities = [], savingThrows = [], skills = [],
            damageVulnerabilities = [], damageResistances = [], damageImmunities = [],
            conditionImmunities = [], senses = [], languages = [],
            challenge = \<lparr>cr = Num 0, xp = Num 0\<rparr>, features = [], actions = [],
            bonusActions = [], reactions = [], legendaryActions = [], lairActions = [],
            mythicActions = [], villainActions = [], otherInfo = []\<rparr>
   \<and> fst (parseMonster id [CHR '' '', CHR 0x0A, CHR 0x09] 0) = Inl (Error ''No content to parse'')"
proof -
  have c: "split (CHR 0x0A) (fst (cleanInput id ''Goblin'' 0)) = [''Goblin'']"
    by code_simp
  have t: "trim ''Goblin'' \<noteq> []"
    by code_simp
  have "\<not> (\<forall>l \<in> set (split (CHR 0x0A) (fst (cleanInput id ''Goblin'' 0))). trim l = [])"
    using c t by simp
  then have n: "fst (parseMonster id ''Goblin'' 0) \<noteq> Inl (Error ''No content to parse'')"
    using parseMonster_failure_semantics [of id "''Goblin''" 0] by blast
  have r: "fst (parseMonster id ''Goblin'' 0) =
       Inr \<lparr>name = ''Goblin'', type' = [], size' = [], alignment = [],
            ac = \<lparr>val = Num 10, formula = []\<rparr>, hp = \<lparr>val = Num 0, formula = []\<rparr>,
            speed = [], abilities = [], savingThrows = [], skills = [],
            damageVulnerabilities = [], damageResistances = [], damageImmunities = [],
            conditionImmunities = [], senses = [], languages = [],
            challenge = \<lparr>cr = Num 0, xp = Num 0\<rparr>, features = [], actions = [],
            bonusActions = [], reactions = [], legendaryActions = [], lairActions = [],
            mythicActions = [], villainActions = [], otherInfo = []\<rparr>"
    by code_simp
  have e: "fst (parseMonster id [CHR '' '', CHR 0x0A, CHR 0x09] 0) = Inl (Error ''No content to parse'')"
    by code_simp
  show ?thesis
    using t n r e by blast
qed

section \<open>Determinism of the pipeline\<close>




section \<open>Classification of spell blocks\<close>




section \<open>Lines that fall to the wrong section\<close>

text \<open>
  Claim C3 at a failing input. After the line \<open>Armor Class 15\<close> the top-level run is
  active; the next line matches no header and has the title shape. The tagger creates
  the Features section but then makes the Other section current, so that line and its
  continuation are recorded under Other and the Features section stays empty.
\<close>

theorem title_line_recorded_under_other:
  "getFirstMatch ''Nimble Escape. The goblin hides'' [Armor] = None
   \<and> foundTopBlock (tagLines 0 [''Armor Class 15''] initialState)
   \<and> strMatch ''Nimble Escape. The goblin hides'' rx_blockTitle \<noteq> None
   \<and> parseIntoBlocks [''Armor Class 15'', ''Nimble Escape. The goblin hides'', ''as a bonus action'']
       = [(Armor, [(0, ''Armor Class 15'')]), (Features, []),
          (OtherBlock, [(1, ''Nimble Escape. The goblin hides''), (2, ''as a bonus action'')])]
   \<and> currentBlockId (tagLines 0 [''Armor Class 15'', ''Nimble Escape. The goblin hides'']
        initialState) = Some OtherBlock"
proof -
  have a: "getFirstMatch ''Nimble Escape. The goblin hides'' [Armor] = None" by code_simp
  have b: "foundTopBlock (tagLines 0 [''Armor Class 15''] initialState)" by code_simp
  have c: "strMatch ''Nimble Escape. The goblin hides'' rx_blockTitle \<noteq> None" by code_simp
  have d: "parseIntoBlocks [''Armor Class 15'', ''Nimble Escape. The goblin hides'', ''as a bonus action'']
       = [(Armor, [(0, ''Armor Class 15'')]), (Features, []),
          (OtherBlock, [(1, ''Nimble Escape. The goblin hides''), (2, ''as a bonus action'')])]"
    by code_simp
  have e: "currentBlockId (tagLines 0 [''Armor Class 15'', ''Nimble Escape. The goblin hides'']
        initialState) = Some OtherBlock" by code_simp
  show ?thesis
    using a b c d e by blast
qed

section \<open>The challenge rating\<close>

text \<open>
  Claim C9 at a failing input. The pattern of the challenge line admits a fraction with
  the denominator 0, and the quotient is then an infinity or NaN, not a rational.
\<close>

theorem challenge_zero_denominator:
  "extractChallenge (parseIntoBlocks [''Challenge 1/0 (10 XP)'']) = \<lparr>cr = Infinity, xp = Num 10\<rparr>
   \<and> extractChallenge (parseIntoBlocks [''Challenge 0/0 (10 XP)'']) = \<lparr>cr = NaN, xp = Num 10\<rparr>"
proof -
  have a: "extractChallenge (parseIntoBlocks [''Challenge 1/0 (10 XP)''])
           = \<lparr>cr = Infinity, xp = Num 10\<rparr>" by code_simp
  have b: "extractChallenge (parseIntoBlocks [''Challenge 0/0 (10 XP)''])
           = \<lparr>cr = NaN, xp = Num 10\<rparr>" by code_simp
  show ?thesis
    using a b by blast
qed

section \<open>Ability scores\<close>

lemma extractAbilities_fold:
  "extractAbilities bs =
     foldl (\<lambda>acc e. case abilityOf (snd e) of
                       None \<Rightarrow> acc
                     | Some (k, v) \<Rightarrow> AList.update k v acc)
           [] (sectionEntries bs Abilities)"
proof -
  have step: "(case abilityOf line of None \<Rightarrow> acc | Some (k, v) \<Rightarrow> AList.update k v acc)
      = (case strMatch line rx_abilities of
           None \<Rightarrow> acc
         | Some m \<Rightarrow> AList.update (toLowerCase (groupOr m 1)) (parseInt (groupOr m 2)) acc)"
    for line and acc :: "(string \<times> number) list"
    by (simp add: abilityOf_def split: option.split)
  show ?thesis
    by (simp add: extractAbilities_def sectionEntries_def step split: option.split)
qed

lemma fold_abilities_keep:
  "\<forall>e \<in> set es. \<forall>v. abilityOf (snd e) \<noteq> Some (k, v) \<Longrightarrow>
     map_of (foldl (\<lambda>acc e. case abilityOf (snd e) of
                               None \<Rightarrow> acc
                             | Some (k, v) \<Rightarrow> AList.update k v acc) acc es) k
     = map_of acc k"
  by (induction es arbitrary: acc) (auto simp: update_conv' split: option.split)

lemma fold_abilities_None:
  "map_of (foldl (\<lambda>acc e. case abilityOf (snd e) of
                             None \<Rightarrow> acc
                           | Some (k, v) \<Rightarrow> AList.update k v acc) acc es) k = None
   \<longleftrightarrow> map_of acc k = None \<and> (\<forall>e \<in> set es. \<forall>v. abilityOf (snd e) \<noteq> Some (k, v))"
proof (induction es arbitrary: acc)
  case Nil
  show ?case by simp
next
  case (Cons e es)
  show ?case
  proof (cases "abilityOf (snd e)")
    case None
    then show ?thesis
      using Cons.IH [of acc] by simp
  next
    case (Some kv)
    obtain k' v' where kv: "kv = (k', v')"
      by (cases kv)
    show ?thesis
      using Some kv Cons.IH [of "AList.update k' v' acc"]
      by (auto simp: update_conv')
  qed
qed

text \<open>
  The abilities of the record can be partial or empty: with the one ability line
  \<open>STR 8 (-1)\<close> only \<open>str\<close> has a score, and with no ability line none has.
\<close>

theorem abilities_not_defaulted:
  "map_of (abilities (assemble ''Goblin'' (parseIntoBlocks [''Armor Class 15'', ''STR 8 (-1)''])))
     ''str'' = Some (Num 8)
   \<and> map_of (abilities (assemble ''Goblin'' (parseIntoBlocks [''Armor Class 15'', ''STR 8 (-1)''])))
     ''dex'' = None
   \<and> abilities (assemble ''Goblin'' (parseIntoBlocks [''Armor Class 15''])) = []"
proof -
  have a: "abilities (assemble ''Goblin'' (parseIntoBlocks [''Armor Class 15'', ''STR 8 (-1)'']))
           = [(''str'', Num 8)]"
    by code_simp
  have b: "abilities (assemble ''Goblin'' (parseIntoBlocks [''Armor Class 15''])) = []"
    by code_simp
  show ?thesis
    using b by (simp add: a)
qed

text \<open>
  Claim C5, amended. An ability has a score in the abilities of the record exactly when
  a line of the ability section matches the ability pattern with its abbreviation, and
  the score is that of the last such line. An ability whose line is absent or does not
  match has no score at all: the parser fills in no default.
\<close>

theorem abilities_from_matching_lines:
  "(map_of (abilities (assemble nm bs)) k = None
      \<longleftrightarrow> (\<forall>e \<in> set (sectionEntries bs Abilities). \<forall>v. abilityOf (snd e) \<noteq> Some (k, v)))
   \<and> (\<forall>pre e post v.
         sectionEntries bs Abilities = pre @ e # post
         \<and> abilityOf (snd e) = Some (k, v)
         \<and> (\<forall>e' \<in> set post. \<forall>v'. abilityOf (snd e') \<noteq> Some (k, v'))
         \<longrightarrow> map_of (abilities (assemble nm bs)) k = Some v)"
proof -
  have ab: "abilities (assemble nm bs) = extractAbilities bs"
    by (simp add: assemble_def)
  have "map_of (extractAbilities bs) k = Some v"
    if "sectionEntries bs Abilities = pre @ e # post"
      and "abilityOf (snd e) = Some (k, v)"
      and "\<forall>e' \<in> set post. \<forall>v'. abilityOf (snd e') \<noteq> Some (k, v')"
    for pre e post v
    using that by (simp add: extractAbilities_fold fold_abilities_keep update_conv')
  then show ?thesis
    unfolding ab by (simp add: extractAbilities_fold fold_abilities_None)
qed

theorem abilities_from_matching_lines_witness:
  "sectionEntries (parseIntoBlocks [''STR 8 (-1)'', ''DEX 14 (+2)'', ''STR 9 (-1)'']) Abilities
     = [(0, ''STR 8 (-1)''), (1, ''DEX 14 (+2)'')] @ (2, ''STR 9 (-1)'') # []
   \<and> abilityOf ''STR 9 (-1)'' = Some (''str'', Num 9)
   \<and> map_of (abilities (assemble ''Goblin''
        (parseIntoBlocks [''STR 8 (-1)'', ''DEX 14 (+2)'', ''STR 9 (-1)'']))) ''str'' = Some (Num 9)
   \<and> map_of (abilities (assemble ''Goblin''
        (parseIntoBlocks [''STR 8 (-1)'', ''DEX 14 (+2)'', ''STR 9 (-1)'']))) ''con'' = None"
proof -
  let ?bs = "parseIntoBlocks [''STR 8 (-1)'', ''DEX 14 (+2)'', ''STR 9 (-1)'']"
  have s: "sectionEntries ?bs Abilities
           = [(0, ''STR 8 (-1)''), (1, ''DEX 14 (+2)'')] @ (2, ''STR 9 (-1)'') # []"
    by code_simp
  have a: "abilityOf ''STR 8 (-1)'' = Some (''str'', Num 8)"
    "abilityOf ''DEX 14 (+2)'' = Some (''dex'', Num 14)"
    "abilityOf ''STR 9 (-1)'' = Some (''str'', Num 9)"
    by code_simp+
  note t = abilities_from_matching_lines [of "''Goblin''" ?bs]
  have "map_of (abilities (assemble ''Goblin'' ?bs)) ''str'' = Some (Num 9)"
    using t [of "''str''", THEN conjunct2, rule_format,
        of "[(0, ''STR 8 (-1)''), (1, ''DEX 14 (+2)'')]" "(2, ''STR 9 (-1)'')" "[]" "Num 9"]
      s a by simp
  moreover have "map_of (abilities (assemble ''Goblin'' ?bs)) ''con'' = None"
    using t [of "''con''", THEN conjunct1] s a by simp
  ultimately show ?thesis
    using s a by simp
qed

section \<open>The matcher on arbitrary input\<close>

lemma litMatch_Some:
  "litMatch ic w (MState b a cs) = Some st' \<Longrightarrow>
     \<exists>p. a = p @ after st' \<and> length p = length w \<and> st' = MState (rev p @ b) (after st') cs
         \<and> list_all2 (\<lambda>x y. itemMatch ic (Ch x) y) w p"
proof (induction w arbitrary: b a)
  case Nil
  then show ?case by auto
next
  case (Cons x w)
  show ?case
  proof (cases a)
    case Nil
    with Cons.prems show ?thesis by simp
  next
    case (Cons c a')
    with Cons.prems have m: "itemMatch ic (Ch x) c"
      and r: "litMatch ic w (MState (c # b) a' cs) = Some st'"
      by (auto split: if_splits)
    from Cons.IH [OF r] obtain p where
      "a' = p @ after st'" "length p = length w" "st' = MState (rev p @ c # b) (after st') cs"
      "list_all2 (\<lambda>x y. itemMatch ic (Ch x) y) w p"
      by blast
    then show ?thesis
      using m Cons by (intro exI [of _ "c # p"]) simp
  qed
qed

lemma matcher_Lit_Some:
  "matcher ic ml (Lit w) k (MState b a cs) = Some r \<Longrightarrow>
     \<exists>p rest. a = p @ rest \<and> length p = length w
        \<and> list_all2 (\<lambda>x y. itemMatch ic (Ch x) y) w p
        \<and> k (MState (rev p @ b) rest cs) = Some r"
proof -
  assume a: "matcher ic ml (Lit w) k (MState b a cs) = Some r"
  then obtain st' where l: "litMatch ic w (MState b a cs) = Some st'" and k: "k st' = Some r"
    by (auto split: option.splits)
  from litMatch_Some [OF l] k show ?thesis
    by metis
qed

lemma matcher_words_Some:
  "matcher ic ml (words ws) k (MState b a cs) = Some r \<Longrightarrow> ws \<noteq> [] \<Longrightarrow>
     \<exists>w \<in> set ws. matcher ic ml (Lit w) k (MState b a cs) = Some r"
proof (induction ws)
  case Nil
  then show ?case by simp
next
  case (Cons w ws)
  show ?case
  proof (cases ws)
    case Nil
    with Cons.prems show ?thesis by (simp add: words_def)
  next
    case (Cons w' ws')
    show ?thesis
    proof (cases "matcher ic ml (Lit w) k (MState b a cs)")
      case None
      with Cons.prems Cons have "matcher ic ml (words ws) k (MState b a cs) = Some r"
        by (simp add: words_def)
      with Cons.IH Cons show ?thesis by auto
    next
      case (Some r')
      with Cons.prems Cons have "r' = r"
        by (simp add: words_def)
      with Some show ?thesis by simp
    qed
  qed
qed

lemma repeatMatcher_Suc:
  "repeatMatcher body (Suc fuel) mn None k (MState b a cs) =
     (case body (\<lambda>st'. if mn = 0 \<and> length (after st') = length a then None
                        else repeatMatcher body fuel (mn - 1) None k st')
                (MState b a cs) of
        Some r \<Rightarrow> Some r
      | None \<Rightarrow> if mn = 0 then k (MState b a cs) else None)"
  by (simp cong: if_cong)

declare repeatMatcher.simps [simp del]

lemma repeat_class_Some:
  "repeatMatcher (oneChar P) fuel mn None k (MState b a cs) = Some r \<Longrightarrow>
     \<exists>xs rest. a = xs @ rest \<and> (\<forall>c \<in> set xs. P c) \<and> mn \<le> length xs
        \<and> k (MState (rev xs @ b) rest cs) = Some r"
proof (induction fuel arbitrary: mn b a)
  case 0
  then show ?case by (simp add: repeatMatcher.simps)
next
  case (Suc fuel)
  let ?k' = "\<lambda>st'. if mn = 0 \<and> length (after st') = length a then None
                    else repeatMatcher (oneChar P) fuel (mn - 1) None k st'"
  from Suc.prems have unf:
    "(case oneChar P ?k' (MState b a cs) of
        Some r \<Rightarrow> Some r
      | None \<Rightarrow> if mn = 0 then k (MState b a cs) else None) = Some r"
    by (simp only: repeatMatcher_Suc)
  show ?case
  proof (cases "oneChar P ?k' (MState b a cs)")
    case None
    with unf have "mn = 0" "k (MState b a cs) = Some r"
      by (auto split: if_splits)
    then show ?thesis
      by (intro exI [of _ "[]"] exI [of _ a]) simp
  next
    case (Some r')
    with unf have rr: "r' = r"
      by simp
    from Some obtain c a' where a: "a = c # a'" and p: "P c"
      and k': "?k' (MState (c # b) a' cs) = Some r'"
      by (cases a) (simp_all split: if_splits)
    from k' a have "repeatMatcher (oneChar P) fuel (mn - 1) None k (MState (c # b) a' cs) = Some r"
      using rr by (simp split: if_splits)
    from Suc.IH [OF this] obtain xs rest where
      "a' = xs @ rest" "\<forall>c \<in> set xs. P c" "mn - 1 \<le> length xs"
      "k (MState (rev xs @ c # b) rest cs) = Some r"
      by blast
    then show ?thesis
      using a p by (intro exI [of _ "c # xs"] exI [of _ rest]) auto
  qed
qed

lemma matcher_class_fun:
  "matcher ic ml (Cls items) = oneChar (classMatch ic items)"
  "matcher ic ml (NCls items) = oneChar (\<lambda>c. \<not> classMatch ic items c)"
  "matcher ic ml Dot = oneChar (\<lambda>c. \<not> isLineTerminator c)"
proof -
  show "matcher ic ml (Cls items) = oneChar (classMatch ic items)"
  proof (intro ext)
    fix k st show "matcher ic ml (Cls items) k st = oneChar (classMatch ic items) k st"
      by (cases st) simp
  qed
  show "matcher ic ml (NCls items) = oneChar (\<lambda>c. \<not> classMatch ic items c)"
  proof (intro ext)
    fix k st show "matcher ic ml (NCls items) k st = oneChar (\<lambda>c. \<not> classMatch ic items c) k st"
      by (cases st) simp
  qed
  show "matcher ic ml Dot = oneChar (\<lambda>c. \<not> isLineTerminator c)"
  proof (intro ext)
    fix k st show "matcher ic ml Dot k st = oneChar (\<lambda>c. \<not> isLineTerminator c) k st"
      by (cases st) simp
  qed
qed

lemma matcher_Plus_class_Some:
  "matcher ic ml (Rep mn None (Cls items)) k (MState b a cs) = Some r \<Longrightarrow>
     \<exists>xs rest. a = xs @ rest \<and> (\<forall>c \<in> set xs. classMatch ic items c) \<and> mn \<le> length xs
        \<and> k (MState (rev xs @ b) rest cs) = Some r"
  by (simp only: matcher.simps matcher_class_fun) (erule repeat_class_Some)

text \<open>An expression anchored at the start can only match at the start.\<close>

lemma search_anchored:
  "pattern R = Seq Bol r \<Longrightarrow> \<not> multiline R \<Longrightarrow> b \<noteq> [] \<Longrightarrow> search R b a = None"
proof (induction a arbitrary: b)
  case Nil
  then show ?case by (cases b) (simp_all add: matchAt_def)
next
  case (Cons c a)
  have "matchAt R b (c # a) = None"
    using Cons.prems by (cases b) (simp_all add: matchAt_def)
  then show ?case
    using Cons by simp
qed

lemma strMatch_anchored:
  "pattern R = Seq Bol r \<Longrightarrow> \<not> multiline R \<Longrightarrow> strMatch l R = matchAt R [] l"
  by (cases l) (simp_all add: strMatch_def search_anchored split: option.split)


lemmas matcher_Seq = matcher.simps(5)
lemmas matcher_Grp = matcher.simps(8)
lemmas matcher_Bol = matcher.simps(9)
lemmas matcher_Rep = matcher.simps(7)
lemmas matcher_Lit = matcher.simps(1)
lemmas matcher_Alt = matcher.simps(6)

lemma matcher_Rep_class_Some:
  "matcher ic ml (Rep mn None (Cls items)) k (MState b a cs) = Some r \<Longrightarrow>
     \<exists>xs rest. a = xs @ rest \<and> (\<forall>c \<in> set xs. classMatch ic items c) \<and> mn \<le> length xs
        \<and> k (MState (rev xs @ b) rest cs) = Some r"
  by (simp only: matcher.simps matcher_class_fun) (erule repeat_class_Some)

subsection \<open>Characters\<close>

lemma canonicalize_fixed:
  "c \<notin> set ''abcdefghijklmnopqrstuvwxyz'' \<Longrightarrow> canonicalize c = c"
  by (simp add: canonicalize_def)

lemma canonicalize_upper:
  "canonicalize c = u \<Longrightarrow> c = u \<or> (c \<in> set ''abcdefghijklmnopqrstuvwxyz''
      \<and> u \<in> set ''ABCDEFGHIJKLMNOPQRSTUVWXYZ'')"
  by (auto simp: canonicalize_def split: if_splits)

lemma isWhiteSpace_canonicalize: "isWhiteSpace c \<Longrightarrow> canonicalize c = c"
  by (rule canonicalize_fixed) (auto simp: isWhiteSpace_def)

lemma isDigit_isWordChar: "isDigit c \<Longrightarrow> isWordChar c"
  by (auto simp: isDigit_def isWordChar_def)

lemma letter_isWordChar:
  "canonicalize c \<in> set ''ABCDEFGHIJKLMNOPQRSTUVWXYZ'' \<Longrightarrow> isWordChar c"
  using canonicalize_upper [of c "canonicalize c"]
  by (auto simp: isWordChar_def)


declare matcher.simps [simp del]

section \<open>The ability run\<close>

lemma ability_line_shape:
  assumes "strMatch l rx_abilities \<noteq> None"
  shows "\<exists>w ws ds ws' rest.
           l = w @ ws @ ds @ ws' @ CHR ''('' # rest
           \<and> isAbbrev w
           \<and> ws \<noteq> [] \<and> (\<forall>c \<in> set ws. isWhiteSpace c)
           \<and> ds \<noteq> [] \<and> (\<forall>c \<in> set ds. isDigit c)
           \<and> (\<forall>c \<in> set ws'. isWhiteSpace c)"
proof -
  let ?r4 = "Seq (Lit ''('') (Seq (Grp 3 (Seq (Cls [Ch CHR ''-'', Ch CHR ''+'']) (Plus dg))) (Lit '')''))"
  let ?r3 = "Seq (Star sp) ?r4"
  let ?r2 = "Seq (Grp 2 (Plus dg)) ?r3"
  let ?r1 = "Seq (Plus sp) ?r2"
  let ?M = "matcher True False"
  have pat: "pattern rx_abilities = Seq Bol (seqs
     [Grp 1 (words [''str'', ''dex'', ''con'', ''int'', ''wis'', ''cha'']), Plus sp,
      Grp 2 (Plus dg), Star sp, Lit ''('',
      Grp 3 (Seq (Cls [Ch CHR ''-'', Ch CHR ''+'']) (Plus dg)), Lit '')''])"
    and fl: "\<not> multiline rx_abilities" "ignoreCase rx_abilities"
    by (simp_all add: rx_abilities_def regex_i_def)
  from assms obtain r where "matchAt rx_abilities [] l = Some r"
    using strMatch_anchored [OF pat fl(1)] by auto
  then have "?M (words [''str'', ''dex'', ''con'', ''int'', ''wis'', ''cha''])
               (\<lambda>st'. ?M ?r1 Some (setCap 1 l st')) (MState [] l []) = Some r"
    unfolding matchAt_def pat using fl
    by (simp only: seqs.simps matcher_Seq matcher_Grp matcher_Bol atBol.simps if_True simp_thms)
  from matcher_words_Some [OF this] obtain w0 where
    w0: "w0 \<in> set abilityWords"
    and "?M (Lit w0) (\<lambda>st'. ?M ?r1 Some (setCap 1 l st')) (MState [] l []) = Some r"
    by (auto simp: abilityWords_def)
  from matcher_Lit_Some [OF this(2)] obtain w rest1 where
    l1: "l = w @ rest1" and lw: "list_all2 (\<lambda>x y. itemMatch True (Ch x) y) w0 w"
    and "?M ?r1 Some (setCap 1 l (MState (rev w @ []) rest1 [])) = Some r"
    by blast
  then obtain cs1 where "?M ?r1 Some (MState (rev w) rest1 cs1) = Some r"
    by simp
  then have "?M (Plus sp) (?M ?r2 Some) (MState (rev w) rest1 cs1) = Some r"
    by (simp only: matcher_Seq)
  from matcher_Rep_class_Some [OF this] obtain ws rest2 where
    l2: "rest1 = ws @ rest2" and ws: "\<forall>c \<in> set ws. classMatch True [ClsS] c" "1 \<le> length ws"
    and "?M ?r2 Some (MState (rev ws @ rev w) rest2 cs1) = Some r"
    by blast
  then have "?M (Plus dg) (\<lambda>st'. ?M ?r3 Some (setCap 2 rest2 st'))
               (MState (rev ws @ rev w) rest2 cs1) = Some r"
    by (simp only: matcher_Seq matcher_Grp)
  from matcher_Rep_class_Some [OF this] obtain ds rest3 where
    l3: "rest2 = ds @ rest3" and ds: "\<forall>c \<in> set ds. classMatch True [ClsD] c" "1 \<le> length ds"
    and "?M ?r3 Some (setCap 2 rest2 (MState (rev ds @ rev ws @ rev w) rest3 cs1)) = Some r"
    by blast
  then obtain cs2 where "?M ?r3 Some (MState (rev ds @ rev ws @ rev w) rest3 cs2) = Some r"
    by simp
  then have "?M (Star sp) (?M ?r4 Some) (MState (rev ds @ rev ws @ rev w) rest3 cs2) = Some r"
    by (simp only: matcher_Seq)
  from matcher_Rep_class_Some [OF this] obtain ws' rest4 where
    l4: "rest3 = ws' @ rest4" and ws': "\<forall>c \<in> set ws'. classMatch True [ClsS] c"
    and "?M ?r4 Some (MState (rev ws' @ rev ds @ rev ws @ rev w) rest4 cs2) = Some r"
    by blast
  then have "?M (Lit ''('')
               (?M (Seq (Grp 3 (Seq (Cls [Ch CHR ''-'', Ch CHR ''+'']) (Plus dg))) (Lit '')'')) Some)
               (MState (rev ws' @ rev ds @ rev ws @ rev w) rest4 cs2) = Some r"
    by (simp only: matcher_Seq)
  from matcher_Lit_Some [OF this] obtain p rest5 where
    l5: "rest4 = p @ rest5" and p: "length p = length ''(''"
      "list_all2 (\<lambda>x y. itemMatch True (Ch x) y) ''('' p"
    by blast
  from p obtain c where pc: "p = [c]" and cc: "canonicalize CHR ''('' = canonicalize c"
    by (cases p) auto
  have "canonicalize CHR ''('' = CHR ''(''"
    by (simp add: canonicalize_def)
  with cc have "canonicalize c = CHR ''(''"
    by simp
  then have "c = CHR ''(''"
    using canonicalize_upper [of c "CHR ''(''"] by auto
  with pc l1 l2 l3 l4 l5 have "l = w @ ws @ ds @ ws' @ CHR ''('' # rest5"
    by simp
  moreover have "isAbbrev w"
    using w0 lw unfolding isAbbrev_def by auto
  moreover have "ws \<noteq> []" "ds \<noteq> []"
    using ws(2) ds(2) by auto
  moreover have "\<forall>c \<in> set ws. isWhiteSpace c" "\<forall>c \<in> set ws'. isWhiteSpace c"
    "\<forall>c \<in> set ds. isDigit c"
    using ws(1) ws' ds(1) by (auto simp: classMatch_def)
  ultimately show ?thesis
    by blast
qed

lemma canonicalize_letters:
  "canonicalize CHR ''a'' = CHR ''A''" "canonicalize CHR ''b'' = CHR ''B''" "canonicalize CHR ''c'' = CHR ''C''" "canonicalize CHR ''d'' = CHR ''D''" "canonicalize CHR ''e'' = CHR ''E''" "canonicalize CHR ''f'' = CHR ''F''" "canonicalize CHR ''g'' = CHR ''G''" "canonicalize CHR ''h'' = CHR ''H''" "canonicalize CHR ''i'' = CHR ''I''" "canonicalize CHR ''j'' = CHR ''J''" "canonicalize CHR ''k'' = CHR ''K''" "canonicalize CHR ''l'' = CHR ''L''" "canonicalize CHR ''m'' = CHR ''M''" "canonicalize CHR ''n'' = CHR ''N''" "canonicalize CHR ''o'' = CHR ''O''" "canonicalize CHR ''p'' = CHR ''P''" "canonicalize CHR ''q'' = CHR ''Q''" "canonicalize CHR ''r'' = CHR ''R''" "canonicalize CHR ''s'' = CHR ''S''" "canonicalize CHR ''t'' = CHR ''T''" "canonicalize CHR ''u'' = CHR ''U''" "canonicalize CHR ''v'' = CHR ''V''" "canonicalize CHR ''w'' = CHR ''W''" "canonicalize CHR ''x'' = CHR ''X''" "canonicalize CHR ''y'' = CHR ''Y''" "canonicalize CHR ''z'' = CHR ''Z''"
  by (simp_all add: canonicalize_def)

lemma abbrev_word:
  "list_all2 (\<lambda>x y. canonicalize x = canonicalize y) [a1, a2, a3] w \<Longrightarrow>
     \<exists>c1 c2 c3. w = [c1, c2, c3] \<and> canonicalize c1 = canonicalize a1
        \<and> canonicalize c2 = canonicalize a2 \<and> canonicalize c3 = canonicalize a3"
  by (auto simp: list_all2_Cons1)

lemma isAbbrev_cases:
  assumes "isAbbrev w"
  obtains c1 c2 c3 where "w = [c1, c2, c3]"
    "(canonicalize c1 = CHR ''S'' \<and> canonicalize c2 = CHR ''T'' \<and> canonicalize c3 = CHR ''R'')
     \<or> (canonicalize c1 = CHR ''D'' \<and> canonicalize c2 = CHR ''E'' \<and> canonicalize c3 = CHR ''X'')
     \<or> (canonicalize c1 = CHR ''C'' \<and> canonicalize c2 = CHR ''O'' \<and> canonicalize c3 = CHR ''N'')
     \<or> (canonicalize c1 = CHR ''I'' \<and> canonicalize c2 = CHR ''N'' \<and> canonicalize c3 = CHR ''T'')
     \<or> (canonicalize c1 = CHR ''W'' \<and> canonicalize c2 = CHR ''I'' \<and> canonicalize c3 = CHR ''S'')
     \<or> (canonicalize c1 = CHR ''C'' \<and> canonicalize c2 = CHR ''H'' \<and> canonicalize c3 = CHR ''A'')"
proof -
  from assms obtain a where a: "a \<in> set abilityWords"
    and l: "list_all2 (\<lambda>x y. canonicalize x = canonicalize y) a w"
    unfolding isAbbrev_def by blast
  from a consider "a = ''str''" | "a = ''dex''" | "a = ''con''" | "a = ''int''" | "a = ''wis''"
    | "a = ''cha''"
    unfolding abilityWords_def by (simp only: set_simps insert_iff empty_iff) blast
  then show ?thesis
  proof cases
    case 1
    with l abbrev_word [of "CHR ''s''" "CHR ''t''" "CHR ''r''" w] that show ?thesis
      by (simp only: canonicalize_letters) blast
  next
    case 2
    with l abbrev_word [of "CHR ''d''" "CHR ''e''" "CHR ''x''" w] that show ?thesis
      by (simp only: canonicalize_letters) blast
  next
    case 3
    with l abbrev_word [of "CHR ''c''" "CHR ''o''" "CHR ''n''" w] that show ?thesis
      by (simp only: canonicalize_letters) blast
  next
    case 4
    with l abbrev_word [of "CHR ''i''" "CHR ''n''" "CHR ''t''" w] that show ?thesis
      by (simp only: canonicalize_letters) blast
  next
    case 5
    with l abbrev_word [of "CHR ''w''" "CHR ''i''" "CHR ''s''" w] that show ?thesis
      by (simp only: canonicalize_letters) blast
  next
    case 6
    with l abbrev_word [of "CHR ''c''" "CHR ''h''" "CHR ''a''" w] that show ?thesis
      by (simp only: canonicalize_letters) blast
  qed
qed

text \<open>The first four characters of an ability line: an abbreviation and a white space.\<close>

lemma ability_line_head:
  assumes "strMatch l rx_abilities \<noteq> None"
  obtains c1 c2 c3 c4 t where "l = c1 # c2 # c3 # c4 # t" "isWhiteSpace c4"
    "(canonicalize c1 = CHR ''S'' \<and> canonicalize c2 = CHR ''T'' \<and> canonicalize c3 = CHR ''R'')
     \<or> (canonicalize c1 = CHR ''D'' \<and> canonicalize c2 = CHR ''E'' \<and> canonicalize c3 = CHR ''X'')
     \<or> (canonicalize c1 = CHR ''C'' \<and> canonicalize c2 = CHR ''O'' \<and> canonicalize c3 = CHR ''N'')
     \<or> (canonicalize c1 = CHR ''I'' \<and> canonicalize c2 = CHR ''N'' \<and> canonicalize c3 = CHR ''T'')
     \<or> (canonicalize c1 = CHR ''W'' \<and> canonicalize c2 = CHR ''I'' \<and> canonicalize c3 = CHR ''S'')
     \<or> (canonicalize c1 = CHR ''C'' \<and> canonicalize c2 = CHR ''H'' \<and> canonicalize c3 = CHR ''A'')"
proof -
  from ability_line_shape [OF assms] obtain w ws ds ws' rest where
    l: "l = w @ ws @ ds @ ws' @ CHR ''('' # rest" and w: "isAbbrev w"
    and ws: "ws \<noteq> []" "\<forall>c \<in> set ws. isWhiteSpace c"
    by blast
  from ws obtain c4 ws2 where ws2: "ws = c4 # ws2" and c4: "isWhiteSpace c4"
    by (cases ws) auto
  from w obtain c1 c2 c3 where "w = [c1, c2, c3]" and
    "(canonicalize c1 = CHR ''S'' \<and> canonicalize c2 = CHR ''T'' \<and> canonicalize c3 = CHR ''R'')
     \<or> (canonicalize c1 = CHR ''D'' \<and> canonicalize c2 = CHR ''E'' \<and> canonicalize c3 = CHR ''X'')
     \<or> (canonicalize c1 = CHR ''C'' \<and> canonicalize c2 = CHR ''O'' \<and> canonicalize c3 = CHR ''N'')
     \<or> (canonicalize c1 = CHR ''I'' \<and> canonicalize c2 = CHR ''N'' \<and> canonicalize c3 = CHR ''T'')
     \<or> (canonicalize c1 = CHR ''W'' \<and> canonicalize c2 = CHR ''I'' \<and> canonicalize c3 = CHR ''S'')
     \<or> (canonicalize c1 = CHR ''C'' \<and> canonicalize c2 = CHR ''H'' \<and> canonicalize c3 = CHR ''A'')"
    by (rule isAbbrev_cases)
  then show ?thesis
    using l ws2 c4 by (intro that [of c1 c2 c3 c4 "ws2 @ ds @ ws' @ CHR ''('' # rest"]) simp_all
qed

text \<open>An anchored expression that starts with a literal fails where the literal fails.\<close>

lemma anchored_literal_None:
  assumes "pattern R = Seq Bol (Seq (Lit w) r)" "\<not> multiline R"
    and "litMatch (ignoreCase R) w (MState [] l []) = None"
  shows "strMatch l R = None"
  using assms strMatch_anchored [OF assms(1,2), of l]
  by (simp add: matchAt_def matcher_Seq matcher_Bol matcher_Lit)

lemma anchored_words_None:
  assumes "pattern R = Seq Bol (Seq (Grp n (words ws)) r)" "\<not> multiline R" "ws \<noteq> []"
    and "\<forall>w \<in> set ws. litMatch (ignoreCase R) w (MState [] l []) = None"
  shows "strMatch l R = None"
proof (rule ccontr)
  assume "strMatch l R \<noteq> None"
  then obtain res where "matchAt R [] l = Some res"
    using strMatch_anchored [OF assms(1,2), of l] by auto
  then have "matcher (ignoreCase R) False (words ws)
               (\<lambda>st'. matcher (ignoreCase R) False r Some (setCap n l st')) (MState [] l []) = Some res"
    using assms(1,2) by (simp add: matchAt_def matcher_Seq matcher_Bol matcher_Grp)
  from matcher_words_Some [OF this assms(3)] obtain w where "w \<in> set ws"
    and "matcher (ignoreCase R) False (Lit w)
               (\<lambda>st'. matcher (ignoreCase R) False r Some (setCap n l st')) (MState [] l []) = Some res"
    by blast
  then show False
    using assms(4) by (auto simp: matcher_Lit)
qed

lemma head_literals_fail:
  assumes "isWhiteSpace c4"
    and "(canonicalize c1 = CHR ''S'' \<and> canonicalize c2 = CHR ''T'' \<and> canonicalize c3 = CHR ''R'')
     \<or> (canonicalize c1 = CHR ''D'' \<and> canonicalize c2 = CHR ''E'' \<and> canonicalize c3 = CHR ''X'')
     \<or> (canonicalize c1 = CHR ''C'' \<and> canonicalize c2 = CHR ''O'' \<and> canonicalize c3 = CHR ''N'')
     \<or> (canonicalize c1 = CHR ''I'' \<and> canonicalize c2 = CHR ''N'' \<and> canonicalize c3 = CHR ''T'')
     \<or> (canonicalize c1 = CHR ''W'' \<and> canonicalize c2 = CHR ''I'' \<and> canonicalize c3 = CHR ''S'')
     \<or> (canonicalize c1 = CHR ''C'' \<and> canonicalize c2 = CHR ''H'' \<and> canonicalize c3 = CHR ''A'')"
    and "w \<in> set headLiterals"
  shows "litMatch True w (MState [] (c1 # c2 # c3 # c4 # t) []) = None"
proof -
  have c4: "canonicalize c4 = c4" "c4 \<noteq> CHR ''L''" "c4 \<noteq> CHR ''D''"
    using assms(1) by (auto simp: isWhiteSpace_canonicalize isWhiteSpace_def)
  from assms(2) show ?thesis
  proof (elim disjE conjE)
    assume "canonicalize c1 = CHR ''S''" "canonicalize c2 = CHR ''T''" "canonicalize c3 = CHR ''R''"
    then show ?thesis
      using assms(3) c4 by (auto simp: headLiterals_def canonicalize_letters)
  next
    assume "canonicalize c1 = CHR ''D''" "canonicalize c2 = CHR ''E''" "canonicalize c3 = CHR ''X''"
    then show ?thesis
      using assms(3) c4 by (auto simp: headLiterals_def canonicalize_letters)
  next
    assume "canonicalize c1 = CHR ''C''" "canonicalize c2 = CHR ''O''" "canonicalize c3 = CHR ''N''"
    then show ?thesis
      using assms(3) c4 by (auto simp: headLiterals_def canonicalize_letters)
  next
    assume "canonicalize c1 = CHR ''I''" "canonicalize c2 = CHR ''N''" "canonicalize c3 = CHR ''T''"
    then show ?thesis
      using assms(3) c4 by (auto simp: headLiterals_def canonicalize_letters)
  next
    assume "canonicalize c1 = CHR ''W''" "canonicalize c2 = CHR ''I''" "canonicalize c3 = CHR ''S''"
    then show ?thesis
      using assms(3) c4 by (auto simp: headLiterals_def canonicalize_letters)
  next
    assume "canonicalize c1 = CHR ''C''" "canonicalize c2 = CHR ''H''" "canonicalize c3 = CHR ''A''"
    then show ?thesis
      using assms(3) c4 by (auto simp: headLiterals_def canonicalize_letters)
  qed
qed

lemma ability_line_no_other_header:
  assumes a: "strMatch l rx_abilities \<noteq> None"
    and b: "b \<noteq> Abilities" "b \<noteq> OtherBlock" "regexOf b = Some R"
  shows "strMatch l R = None"
proof -
  from a obtain c1 c2 c3 c4 t where l: "l = c1 # c2 # c3 # c4 # t" and c4: "isWhiteSpace c4"
    and abbr:
    "(canonicalize c1 = CHR ''S'' \<and> canonicalize c2 = CHR ''T'' \<and> canonicalize c3 = CHR ''R'')
     \<or> (canonicalize c1 = CHR ''D'' \<and> canonicalize c2 = CHR ''E'' \<and> canonicalize c3 = CHR ''X'')
     \<or> (canonicalize c1 = CHR ''C'' \<and> canonicalize c2 = CHR ''O'' \<and> canonicalize c3 = CHR ''N'')
     \<or> (canonicalize c1 = CHR ''I'' \<and> canonicalize c2 = CHR ''N'' \<and> canonicalize c3 = CHR ''T'')
     \<or> (canonicalize c1 = CHR ''W'' \<and> canonicalize c2 = CHR ''I'' \<and> canonicalize c3 = CHR ''S'')
     \<or> (canonicalize c1 = CHR ''C'' \<and> canonicalize c2 = CHR ''H'' \<and> canonicalize c3 = CHR ''A'')"
    by (rule ability_line_head)
  have lit: "litMatch True w (MState [] l []) = None" if "w \<in> set headLiterals" for w
    unfolding l using c4 abbr that by (rule head_literals_fail)
  have one: "strMatch l R' = None"
    if "pattern R' = Seq Bol (Seq (Lit w) r)" "\<not> multiline R'" "ignoreCase R'"
      "w \<in> set headLiterals" for R' w r
    using that lit [of w] by (intro anchored_literal_None [of R' w r]) simp_all
  have racial: "strMatch l rx_racialDetails = None"
  proof (rule anchored_words_None)
    show "pattern rx_racialDetails = Seq Bol (Seq (Grp 1 (words sizeWords)) (seqs
      [Plus sp, Grp 2 (words typeWords),
      Opt (Grp 3 (seqs [Star sp, Lit ''('', Grp 4 (Plus (NCls [Ch CHR '')''])), Lit '')''])),
      Star sp, Lit '','', Star sp,
      Grp 5 (words [''lawful good'', ''neutral good'', ''chaotic good'', ''lawful neutral'',
                    ''neutral'', ''chaotic neutral'', ''lawful evil'', ''neutral evil'',
                    ''chaotic evil'', ''unaligned'', ''any alignment'',
                    ''any non-good alignment'', ''any non-lawful alignment'',
                    ''any chaotic alignment''])]))"
      by (simp add: rx_racialDetails_def regex_i_def)
    show "\<not> multiline rx_racialDetails"
      by (simp add: rx_racialDetails_def regex_i_def)
    show "sizeWords \<noteq> []"
      by (simp add: sizeWords_def)
    show "\<forall>w \<in> set sizeWords. litMatch (ignoreCase rx_racialDetails) w (MState [] l []) = None"
      using lit by (simp add: rx_racialDetails_def regex_i_def sizeWords_def headLiterals_def)
  qed
  have hl: "''actions'' \<in> set headLiterals" "''armor'' \<in> set headLiterals"
    "''bonus'' \<in> set headLiterals" "''challenge'' \<in> set headLiterals"
    "''condition'' \<in> set headLiterals" "''damage'' \<in> set headLiterals"
    "''immunities'' \<in> set headLiterals" "''hit'' \<in> set headLiterals"
    "''lair'' \<in> set headLiterals" "''languages'' \<in> set headLiterals"
    "''legendary'' \<in> set headLiterals" "''mythic'' \<in> set headLiterals"
    "''reactions'' \<in> set headLiterals" "''saving'' \<in> set headLiterals"
    "''senses'' \<in> set headLiterals" "''skills'' \<in> set headLiterals"
    "''speed'' \<in> set headLiterals" "''villain'' \<in> set headLiterals"
    by (simp_all add: headLiterals_def)
  show ?thesis
  proof (cases b)
    case Actions
    with b show ?thesis
      by (auto intro!: one hl simp: rx_actions_def regex_i_def)
  next
    case Armor
    with b show ?thesis
      by (auto intro!: one hl simp: rx_armor_def regex_i_def)
  next
    case BonusActions
    with b show ?thesis
      by (auto intro!: one hl simp: rx_bonusActions_def regex_i_def)
  next
    case Challenge
    with b show ?thesis
      by (auto intro!: one hl simp: rx_challenge_def regex_i_def)
  next
    case ConditionImmunities
    with b show ?thesis
      by (auto intro!: one hl simp: rx_conditionImmunities_def regex_i_def)
  next
    case DamageImmunities
    with b show ?thesis
      by (auto intro!: one hl simp: rx_damageImmunities_def regex_i_def)
  next
    case Immunities2024
    with b show ?thesis
      by (auto intro!: one hl simp: rx_immunities2024_def regex_i_def)
  next
    case DamageResistances
    with b show ?thesis
      by (auto intro!: one hl simp: rx_damageResistances_def regex_i_def)
  next
    case DamageVulnerabilities
    with b show ?thesis
      by (auto intro!: one hl simp: rx_damageVulnerabilities_def regex_i_def)
  next
    case Health
    with b show ?thesis
      by (auto intro!: one hl simp: rx_health_def regex_i_def)
  next
    case LairActions
    with b show ?thesis
      by (auto intro!: one hl simp: rx_lairActions_def regex_i_def)
  next
    case Languages
    with b show ?thesis
      by (auto intro!: one hl simp: rx_languages_def regex_i_def)
  next
    case LegendaryActions
    with b show ?thesis
      by (auto intro!: one hl simp: rx_legendaryActions_def regex_i_def)
  next
    case MythicActions
    with b show ?thesis
      by (auto intro!: one hl simp: rx_mythicActions_def regex_i_def)
  next
    case RacialDetails
    with b racial show ?thesis
      by simp
  next
    case Reactions
    with b show ?thesis
      by (auto intro!: one hl simp: rx_reactions_def regex_i_def)
  next
    case SavingThrows
    with b show ?thesis
      by (auto intro!: one hl simp: rx_savingThrows_def regex_i_def)
  next
    case Senses
    with b show ?thesis
      by (auto intro!: one hl simp: rx_senses_def regex_i_def)
  next
    case Skills
    with b show ?thesis
      by (auto intro!: one hl simp: rx_skills_def regex_i_def)
  next
    case Speed
    with b show ?thesis
      by (auto intro!: one hl simp: rx_speed_def regex_i_def)
  next
    case VillainActions
    with b show ?thesis
      by (auto intro!: one hl simp: rx_villainActions_def regex_i_def)
  qed (use b in simp_all)
qed

lemma matcher_Cls_Some:
  "matcher ic ml (Cls items) k (MState b a cs) = Some r \<Longrightarrow>
     \<exists>c a'. a = c # a' \<and> classMatch ic items c \<and> k (MState (c # b) a' cs) = Some r"
  by (cases a) (auto simp: matcher_class_fun split: if_splits)

lemma first_outsider:
  assumes "xs @ x # r = ys @ y # s" "\<forall>c \<in> set xs. P c" "\<not> P x" "\<forall>c \<in> set ys. P c" "\<not> P y"
  shows "x = y"
proof -
  have "dropWhile P (xs @ x # r) = x # r" "dropWhile P (ys @ y # s) = y # s"
    using assms(2-5) by (simp_all add: dropWhile_append)
  with assms(1) show ?thesis by simp
qed

lemma blockTitle_shape:
  assumes "strMatch l rx_blockTitle \<noteq> None"
  shows "\<exists>c ys rest. l = c # ys @ CHR ''.'' # rest \<and> (\<forall>y \<in> set ys. isWordChar y \<or> isWhiteSpace y)"
proof -
  let ?M = "matcher False False"
  have pat: "pattern rx_blockTitle = Seq Bol (seqs
     [Grp 1 (Seq (Cls [Range CHR ''A'' CHR ''Z'']) (Plus (Cls [ClsW, ClsS]))), Lit ''.''])"
    and fl: "\<not> multiline rx_blockTitle" "\<not> ignoreCase rx_blockTitle"
    by (simp_all add: rx_blockTitle_def regex_def)
  from assms obtain r where "matchAt rx_blockTitle [] l = Some r"
    using strMatch_anchored [OF pat fl(1)] by auto
  then have "?M (Cls [Range CHR ''A'' CHR ''Z''])
               (?M (Plus (Cls [ClsW, ClsS])) (\<lambda>st'. ?M (Lit ''.'') Some (setCap 1 l st')))
               (MState [] l []) = Some r"
    unfolding matchAt_def pat using fl
    by (simp only: seqs.simps matcher_Seq matcher_Grp matcher_Bol atBol.simps if_True simp_thms)
  from matcher_Cls_Some [OF this] obtain c a' where
    l1: "l = c # a'"
    and "?M (Plus (Cls [ClsW, ClsS])) (\<lambda>st'. ?M (Lit ''.'') Some (setCap 1 l st'))
           (MState [c] a' []) = Some r"
    by blast
  from matcher_Rep_class_Some [OF this(2)] obtain ys rest1 where
    l2: "a' = ys @ rest1" and ys: "\<forall>y \<in> set ys. classMatch False [ClsW, ClsS] y"
    and "?M (Lit ''.'') Some (setCap 1 l (MState (rev ys @ [c]) rest1 [])) = Some r"
    by blast
  then have "?M (Lit ''.'') Some
               (MState (rev ys @ [c]) rest1 [(1, take (length l - length rest1) l)]) = Some r"
    by simp
  from matcher_Lit_Some [OF this] obtain p rest2 where
    l3: "rest1 = p @ rest2" and p: "length p = length ''.''"
      "list_all2 (\<lambda>x y. itemMatch False (Ch x) y) ''.'' p"
    by blast
  from p have "p = ''.''"
    by (cases p) auto
  with l1 l2 l3 have "l = c # ys @ CHR ''.'' # rest2"
    by simp
  moreover have "\<forall>y \<in> set ys. isWordChar y \<or> isWhiteSpace y"
    using ys by (auto simp: classMatch_def)
  ultimately show ?thesis
    by blast
qed

lemma isAbbrev_isWordChar:
  assumes "isAbbrev w" "c \<in> set w"
  shows "isWordChar c"
proof -
  from assms(1) obtain c1 c2 c3 where w: "w = [c1, c2, c3]" and
    "(canonicalize c1 = CHR ''S'' \<and> canonicalize c2 = CHR ''T'' \<and> canonicalize c3 = CHR ''R'')
     \<or> (canonicalize c1 = CHR ''D'' \<and> canonicalize c2 = CHR ''E'' \<and> canonicalize c3 = CHR ''X'')
     \<or> (canonicalize c1 = CHR ''C'' \<and> canonicalize c2 = CHR ''O'' \<and> canonicalize c3 = CHR ''N'')
     \<or> (canonicalize c1 = CHR ''I'' \<and> canonicalize c2 = CHR ''N'' \<and> canonicalize c3 = CHR ''T'')
     \<or> (canonicalize c1 = CHR ''W'' \<and> canonicalize c2 = CHR ''I'' \<and> canonicalize c3 = CHR ''S'')
     \<or> (canonicalize c1 = CHR ''C'' \<and> canonicalize c2 = CHR ''H'' \<and> canonicalize c3 = CHR ''A'')"
    by (rule isAbbrev_cases)
  then have "canonicalize c1 \<in> set ''ABCDEFGHIJKLMNOPQRSTUVWXYZ''"
    "canonicalize c2 \<in> set ''ABCDEFGHIJKLMNOPQRSTUVWXYZ''"
    "canonicalize c3 \<in> set ''ABCDEFGHIJKLMNOPQRSTUVWXYZ''"
    by auto
  then have "isWordChar c1" "isWordChar c2" "isWordChar c3"
    by (simp_all only: letter_isWordChar)
  with w assms(2) show ?thesis
    by auto
qed

lemma ability_line_not_title:
  assumes "strMatch l rx_abilities \<noteq> None"
  shows "strMatch l rx_blockTitle = None"
proof (rule ccontr)
  assume "strMatch l rx_blockTitle \<noteq> None"
  from blockTitle_shape [OF this] obtain c ys rest where
    t: "l = c # ys @ CHR ''.'' # rest" and ys: "\<forall>y \<in> set ys. isWordChar y \<or> isWhiteSpace y"
    by blast
  from ability_line_shape [OF assms] obtain w ws ds ws' rest' where
    l: "l = w @ ws @ ds @ ws' @ CHR ''('' # rest'" and w: "isAbbrev w"
    and ws: "\<forall>c \<in> set ws. isWhiteSpace c" "\<forall>c \<in> set ds. isDigit c" "\<forall>c \<in> set ws'. isWhiteSpace c"
    by blast
  let ?P = "\<lambda>c. isWordChar c \<or> isWhiteSpace c"
  have pre: "\<forall>c \<in> set (w @ ws @ ds @ ws'). ?P c"
    using w ws by (auto simp: isAbbrev_isWordChar isDigit_isWordChar)
  from w obtain c1 w' where w': "w = c1 # w'"
    by (rule isAbbrev_cases) simp
  have "CHR ''.'' = CHR ''(''"
  proof (rule first_outsider [where P = ?P])
    show "ys @ CHR ''.'' # rest = (w' @ ws @ ds @ ws') @ CHR ''('' # rest'"
      using t l w' by simp
    show "\<forall>c \<in> set ys. ?P c"
      using ys by simp
    show "\<forall>c \<in> set (w' @ ws @ ds @ ws'). ?P c"
      using pre w' by simp
    show "\<not> ?P CHR ''.''" "\<not> ?P CHR ''(''"
      by (simp_all add: isWordChar_def isWhiteSpace_def)
  qed
  then show False
    by simp
qed

lemma ability_line_not_skipped:
  assumes "strMatch l rx_abilities \<noteq> None"
  shows "l \<noteq> []" "\<not> startsWith l ''*''"
proof -
  from assms obtain c1 c2 c3 c4 t where l: "l = c1 # c2 # c3 # c4 # t" and
    "(canonicalize c1 = CHR ''S'' \<and> canonicalize c2 = CHR ''T'' \<and> canonicalize c3 = CHR ''R'')
     \<or> (canonicalize c1 = CHR ''D'' \<and> canonicalize c2 = CHR ''E'' \<and> canonicalize c3 = CHR ''X'')
     \<or> (canonicalize c1 = CHR ''C'' \<and> canonicalize c2 = CHR ''O'' \<and> canonicalize c3 = CHR ''N'')
     \<or> (canonicalize c1 = CHR ''I'' \<and> canonicalize c2 = CHR ''N'' \<and> canonicalize c3 = CHR ''T'')
     \<or> (canonicalize c1 = CHR ''W'' \<and> canonicalize c2 = CHR ''I'' \<and> canonicalize c3 = CHR ''S'')
     \<or> (canonicalize c1 = CHR ''C'' \<and> canonicalize c2 = CHR ''H'' \<and> canonicalize c3 = CHR ''A'')"
    by (rule ability_line_head)
  then have "canonicalize c1 \<noteq> CHR ''*''"
    by auto
  moreover have "canonicalize CHR ''*'' = CHR ''*''"
    by (simp add: canonicalize_def)
  ultimately have "c1 \<noteq> CHR ''*''"
    by auto
  with l show "l \<noteq> []" "\<not> startsWith l ''*''"
    by (simp_all add: startsWith_def)
qed

text \<open>What \<open>_getFirstMatch\<close> answers for an ability line.\<close>

lemma getFirstMatch_ability_first:
  assumes "strMatch l rx_abilities \<noteq> None" "Abilities \<notin> set excludeIds"
  shows "getFirstMatch l excludeIds = Some Abilities"
  using assms by (simp add: getFirstMatch_def Blocks_keys_def)

lemma getFirstMatch_ability_later:
  assumes "strMatch l rx_abilities \<noteq> None" "Abilities \<in> set excludeIds"
  shows "getFirstMatch l excludeIds = None"
proof -
  have "\<not> (if b \<in> set excludeIds then False
           else (case regexOf b of None \<Rightarrow> False | Some R \<Rightarrow> strMatch l R \<noteq> None))"
    if "b \<noteq> OtherBlock" for b
  proof (cases "b = Abilities")
    case True
    with assms(2) show ?thesis by simp
  next
    case False
    then show ?thesis
      using ability_line_no_other_header [OF assms(1) False that]
      by (auto split: option.split)
  qed
  then have "\<not> (if b \<in> set excludeIds then False
           else (case regexOf b of None \<Rightarrow> False | Some R \<Rightarrow> strMatch l R \<noteq> None))"
    if "b \<in> set (filter (\<lambda>b. b \<notin> set [Name, Features, OtherBlock]) Blocks_keys)" for b
    using that by simp
  then show ?thesis
    unfolding getFirstMatch_def find_None_iff by blast
qed

lemma update_fresh: "k \<notin> fst ` set al \<Longrightarrow> AList.update k v al = al @ [(k, v)]"
  by (induction al) auto

lemma has_keys: "has bs b \<longleftrightarrow> b \<in> set (map fst bs)"
  by (simp add: has_def map_of_eq_None_iff)

lemma pushLine_fields [simp]:
  "currentBlockId (pushLine i line ps) = currentBlockId ps"
  "foundAbilityLine (pushLine i line ps) = foundAbilityLine ps"
  "foundTopBlock (pushLine i line ps) = foundTopBlock ps"
  by (simp_all add: pushLine_def split: option.split)

lemma tagLine_first_ability:
  assumes "isAbilityLine l" "\<not> has (blocks ps) Abilities" "\<not> foundAbilityLine ps"
  shows "tagLine i l ps =
           ps\<lparr>blocks := blocks ps @ [(Abilities, [(i, trim l)])],
              currentBlockId := Some Abilities, foundTopBlock := True, foundAbilityLine := True\<rparr>"
proof -
  have m: "strMatch (trim l) rx_abilities \<noteq> None"
    using assms(1) by (simp add: isAbilityLine_def)
  have k: "Abilities \<notin> set (map fst (blocks ps))"
    using assms(2) by (simp add: has_keys)
  have g: "getFirstMatch (trim l) (map fst (blocks ps)) = Some Abilities"
    using m k by (rule getFirstMatch_ability_first)
  have u: "AList.update Abilities [(i, trim l)] (blocks ps) = blocks ps @ [(Abilities, [(i, trim l)])]"
    using k by (intro update_fresh) simp
  show ?thesis
    using ability_line_not_skipped [OF m] g assms(2,3) u
    by (simp add: tagLine_def Let_def handleFeatures_def handleOther_def handleTop_def
        handleAbilityEnd_def handleMatch_def pushLine_def top_def update_conv')
qed

lemma tagLine_later_ability:
  assumes "isAbilityLine l" "map_of (blocks ps) Abilities = Some es"
    "currentBlockId ps = Some Abilities" "foundAbilityLine ps"
  shows "tagLine i l ps = ps\<lparr>blocks := AList.update Abilities (es @ [(i, trim l)]) (blocks ps)\<rparr>"
proof -
  have m: "strMatch (trim l) rx_abilities \<noteq> None"
    using assms(1) by (simp add: isAbilityLine_def)
  have k: "Abilities \<in> set (map fst (blocks ps))"
    using assms(2) by (metis has_def has_keys option.distinct(1))
  have g: "getFirstMatch (trim l) (map fst (blocks ps)) = None"
    using m k by (rule getFirstMatch_ability_later)
  show ?thesis
    using ability_line_not_skipped [OF m] g assms(2-4) ability_line_not_title [OF m]
    by (simp add: tagLine_def Let_def handleFeatures_def handleOther_def handleTop_def
        handleAbilityEnd_def handleMatch_def pushLine_def)
qed

lemma tagLines_later_abilities:
  assumes "\<forall>l \<in> set ls. isAbilityLine l" "map_of (blocks ps) Abilities = Some es"
    "currentBlockId ps = Some Abilities" "foundAbilityLine ps"
  shows "tagLines i ls ps =
           ps\<lparr>blocks := AList.update Abilities (es @ zip [i..<i + length ls] (map trim ls))
                           (blocks ps)\<rparr>"
  using assms
proof (induction ls arbitrary: ps i es)
  case Nil
  then show ?case
    by (simp add: update_triv)
next
  case (Cons l ls)
  let ?ps = "ps\<lparr>blocks := AList.update Abilities (es @ [(i, trim l)]) (blocks ps)\<rparr>"
  have step: "tagLine i l ps = ?ps"
    using Cons.prems by (intro tagLine_later_ability) simp_all
  have "tagLines (Suc i) ls ?ps =
          ?ps\<lparr>blocks := AList.update Abilities
                    ((es @ [(i, trim l)]) @ zip [Suc i..<Suc i + length ls] (map trim ls))
                    (blocks ?ps)\<rparr>"
    using Cons.prems by (intro Cons.IH) (simp_all add: update_conv')
  moreover have "[i..<i + length (l # ls)] = i # [Suc i..<Suc i + length ls]"
    by (simp add: upt_rec)
  ultimately show ?case
    using step by simp
qed

lemma tagLines_ability_run:
  assumes "\<forall>l \<in> set ls. isAbilityLine l" "ls \<noteq> []"
    "\<not> has (blocks ps) Abilities" "\<not> foundAbilityLine ps"
  shows "tagLines i ls ps =
           ps\<lparr>blocks := blocks ps @ [(Abilities, zip [i..<i + length ls] (map trim ls))],
              currentBlockId := Some Abilities, foundTopBlock := True, foundAbilityLine := True\<rparr>"
proof -
  from assms(2) obtain l ls' where ls: "ls = l # ls'"
    by (cases ls) auto
  let ?ps = "ps\<lparr>blocks := blocks ps @ [(Abilities, [(i, trim l)])],
              currentBlockId := Some Abilities, foundTopBlock := True, foundAbilityLine := True\<rparr>"
  have k: "Abilities \<notin> fst ` set (blocks ps)"
    using assms(3) by (simp add: has_keys)
  have first: "tagLine i l ps = ?ps"
    using assms ls by (intro tagLine_first_ability) simp_all
  have "tagLines (Suc i) ls' ?ps =
          ?ps\<lparr>blocks := AList.update Abilities
                    ([(i, trim l)] @ zip [Suc i..<Suc i + length ls'] (map trim ls'))
                    (blocks ?ps)\<rparr>"
    using assms(1) ls k
    by (intro tagLines_later_abilities) (simp_all add: map_add_def map_of_eq_None_iff [THEN iffD2])
  moreover have "AList.update Abilities v (blocks ps @ [(Abilities, v')]) = blocks ps @ [(Abilities, v)]"
    for v v' :: "entry list"
    using update_fresh [OF k, of v'] update_fresh [OF k, of v] update_last [of Abilities v v' "blocks ps"]
    by simp
  moreover have "[i..<i + length ls] = i # [Suc i..<Suc i + length ls']"
    using ls by (simp add: upt_rec)
  ultimately show ?thesis
    using first ls by simp
qed

lemma tagLine_ends_run:
  assumes "foundAbilityLine ps"
  shows "\<not> foundAbilityLine (tagLine i l ps) \<longleftrightarrow>
           trim l \<noteq> [] \<and> \<not> startsWith (trim l) ''*''
           \<and> (\<exists>b. getFirstMatch (trim l) (map fst (blocks ps)) = Some b \<and> b \<noteq> Abilities)"
  using assms
  by (cases "getFirstMatch (trim l) (map fst (blocks ps))")
     (auto simp: tagLine_def Let_def handleFeatures_def handleOther_def handleTop_def
        handleAbilityEnd_def handleMatch_def)

lemma getFirstMatch_fresh:
  "getFirstMatch line excludeIds = Some b \<Longrightarrow> b \<notin> set excludeIds"
  by (auto simp: getFirstMatch_def find_Some_iff split: if_splits)

lemma tagLine_new_section:
  assumes "foundAbilityLine ps" "trim l \<noteq> []" "\<not> startsWith (trim l) ''*''"
    "getFirstMatch (trim l) (map fst (blocks ps)) = Some b" "b \<noteq> Abilities"
  shows "currentBlockId (tagLine i l ps) = Some b"
    and "blocks (tagLine i l ps) = blocks ps @ [(b, [(i, trim l)])]"
proof -
  have k: "b \<notin> fst ` set (blocks ps)"
    using getFirstMatch_fresh [OF assms(4)] by simp
  then have h: "\<not> has (blocks ps) b"
    by (simp add: has_keys)
  show "currentBlockId (tagLine i l ps) = Some b"
    using assms by (simp add: tagLine_def Let_def handleFeatures_def handleOther_def handleTop_def
        handleAbilityEnd_def handleMatch_def)
  have "AList.update b [(i, trim l)] (blocks ps) = blocks ps @ [(b, [(i, trim l)])]"
    using k by (rule update_fresh)
  then show "blocks (tagLine i l ps) = blocks ps @ [(b, [(i, trim l)])]"
    using assms h by (simp add: tagLine_def Let_def handleFeatures_def handleOther_def handleTop_def
        handleAbilityEnd_def handleMatch_def pushLine_def update_conv')
qed


lemma tagLines_append:
  "tagLines i (xs @ ys) ps = tagLines (i + length xs) ys (tagLines i xs ps)"
  by (induction xs arbitrary: i ps) simp_all

text \<open>In every state the tagger reaches, an active ability run has opened the ability section.\<close>

lemma has_update: "has (AList.update k v bs) b \<longleftrightarrow> b = k \<or> has bs b"
  by (auto simp: has_def update_conv')

lemma has_pushLine: "has (blocks (pushLine i line ps)) b \<longleftrightarrow> has (blocks ps) b"
  by (auto simp: pushLine_def has_def update_conv' split: option.split)

lemma tagLine_run_opened:
  assumes "foundAbilityLine ps \<longrightarrow> has (blocks ps) Abilities"
  shows "foundAbilityLine (tagLine i l ps) \<longrightarrow> has (blocks (tagLine i l ps)) Abilities"
  using assms
  by (cases "getFirstMatch (trim l) (map fst (blocks ps))")
     (auto simp: tagLine_def Let_def handleFeatures_def handleOther_def handleTop_def
        handleAbilityEnd_def handleMatch_def has_pushLine has_update)

lemma tagLines_run_opened:
  assumes "foundAbilityLine ps \<longrightarrow> has (blocks ps) Abilities"
  shows "foundAbilityLine (tagLines i ls ps) \<longrightarrow> has (blocks (tagLines i ls ps)) Abilities"
  using assms
proof (induction ls arbitrary: i ps)
  case Nil
  then show ?case by simp
next
  case (Cons l ls)
  show ?case
    using Cons.IH [OF tagLine_run_opened [OF Cons.prems]] by simp
qed

text \<open>
  Claim C2. In a statblock whose ability section is not yet open, consecutive ability
  lines (six of them, or any other number) are all recorded, with their line numbers, in
  one section Abilities that they add to the map, and the ability run is then active
  with Abilities the current section: the later lines of the run match the ability
  pattern and yet open no section. While the run is active, a line ends it exactly when
  it is not skipped and \<open>_getFirstMatch\<close> finds for it a section other than Abilities; that
  section then becomes the current one and receives the line.
\<close>

theorem ability_run_grouped:
  "(\<forall>pre ls.
      (\<forall>l \<in> set ls. isAbilityLine l) \<and> ls \<noteq> [] \<and> \<not> has (parseIntoBlocks pre) Abilities \<longrightarrow>
        parseIntoBlocks (pre @ ls)
          = parseIntoBlocks pre
            @ [(Abilities, zip [length pre..<length pre + length ls] (map trim ls))]
        \<and> currentBlockId (tagLines 0 (pre @ ls) initialState) = Some Abilities
        \<and> foundAbilityLine (tagLines 0 (pre @ ls) initialState))
   \<and> (\<forall>ps i l.
        foundAbilityLine ps \<longrightarrow>
          (\<not> foundAbilityLine (tagLine i l ps) \<longleftrightarrow>
             trim l \<noteq> [] \<and> \<not> startsWith (trim l) ''*''
             \<and> (\<exists>b. getFirstMatch (trim l) (map fst (blocks ps)) = Some b \<and> b \<noteq> Abilities)))
   \<and> (\<forall>ps i l b.
        foundAbilityLine ps \<and> trim l \<noteq> [] \<and> \<not> startsWith (trim l) ''*''
        \<and> getFirstMatch (trim l) (map fst (blocks ps)) = Some b \<and> b \<noteq> Abilities \<longrightarrow>
          currentBlockId (tagLine i l ps) = Some b
          \<and> blocks (tagLine i l ps) = blocks ps @ [(b, [(i, trim l)])])"
proof (intro conjI allI impI)
  fix pre ls
  assume a: "(\<forall>l \<in> set ls. isAbilityLine l) \<and> ls \<noteq> [] \<and> \<not> has (parseIntoBlocks pre) Abilities"
  let ?ps = "tagLines 0 pre initialState"
  have closed: "\<not> has (blocks ?ps) Abilities"
    using a by (simp add: parseIntoBlocks_def)
  have "foundAbilityLine initialState \<longrightarrow> has (blocks initialState) Abilities"
    by (simp add: initialState_def)
  from tagLines_run_opened [OF this, of 0 pre] closed have idle: "\<not> foundAbilityLine ?ps"
    by blast
  have run: "tagLines 0 (pre @ ls) initialState =
      ?ps\<lparr>blocks := blocks ?ps @ [(Abilities, zip [length pre..<length pre + length ls] (map trim ls))],
          currentBlockId := Some Abilities, foundTopBlock := True, foundAbilityLine := True\<rparr>"
    using a closed idle tagLines_ability_run [of ls ?ps "length pre"]
    by (simp add: tagLines_append)
  show "parseIntoBlocks (pre @ ls)
          = parseIntoBlocks pre
            @ [(Abilities, zip [length pre..<length pre + length ls] (map trim ls))]"
    by (simp add: parseIntoBlocks_def run)
  show "currentBlockId (tagLines 0 (pre @ ls) initialState) = Some Abilities"
    by (simp add: run)
  show "foundAbilityLine (tagLines 0 (pre @ ls) initialState)"
    by (simp add: run)
next
  fix ps :: parseState and i l
  assume "foundAbilityLine ps"
  then show "\<not> foundAbilityLine (tagLine i l ps) \<longleftrightarrow>
             trim l \<noteq> [] \<and> \<not> startsWith (trim l) ''*''
             \<and> (\<exists>b. getFirstMatch (trim l) (map fst (blocks ps)) = Some b \<and> b \<noteq> Abilities)"
    by (rule tagLine_ends_run)
next
  fix ps :: parseState and i l b
  assume a: "foundAbilityLine ps \<and> trim l \<noteq> [] \<and> \<not> startsWith (trim l) ''*''
        \<and> getFirstMatch (trim l) (map fst (blocks ps)) = Some b \<and> b \<noteq> Abilities"
  then show "currentBlockId (tagLine i l ps) = Some b"
    by (intro tagLine_new_section(1)) simp_all
  from a show "blocks (tagLine i l ps) = blocks ps @ [(b, [(i, trim l)])]"
    by (intro tagLine_new_section(2)) simp_all
qed

theorem ability_run_grouped_witness:
  "isAbilityLine ''STR 18 (+4)'' \<and> isAbilityLine ''DEX 12 (+1)'' \<and> isAbilityLine ''CON 16 (+3)''
   \<and> isAbilityLine ''INT 3 (-4)'' \<and> isAbilityLine ''WIS 12 (+1)'' \<and> isAbilityLine ''CHA 7 (-2)''
   \<and> \<not> has (parseIntoBlocks [''Armor Class 15'']) Abilities
   \<and> parseIntoBlocks ([''Armor Class 15'']
        @ [''STR 18 (+4)'', ''DEX 12 (+1)'', ''CON 16 (+3)'', ''INT 3 (-4)'', ''WIS 12 (+1)'',
           ''CHA 7 (-2)''])
      = [(Armor, [(0, ''Armor Class 15'')]),
         (Abilities, [(1, ''STR 18 (+4)''), (2, ''DEX 12 (+1)''), (3, ''CON 16 (+3)''),
                      (4, ''INT 3 (-4)''), (5, ''WIS 12 (+1)''), (6, ''CHA 7 (-2)'')])]
   \<and> parseIntoBlocks
        [''STR 18 (+4)'', ''DEX 12 (+1)'', ''CON 16 (+3)'', ''INT 3 (-4)'', ''WIS 12 (+1)'',
         ''CHA 7 (-2)'', ''Saving Throws Dex +3'']
      = [(Abilities, [(0, ''STR 18 (+4)''), (1, ''DEX 12 (+1)''), (2, ''CON 16 (+3)''),
                      (3, ''INT 3 (-4)''), (4, ''WIS 12 (+1)''), (5, ''CHA 7 (-2)'')]),
         (SavingThrows, [(6, ''Saving Throws Dex +3'')])]
   \<and> currentBlockId (tagLines 0
        [''STR 18 (+4)'', ''DEX 12 (+1)'', ''CON 16 (+3)'', ''INT 3 (-4)'', ''WIS 12 (+1)'',
         ''CHA 7 (-2)'', ''Saving Throws Dex +3''] initialState) = Some SavingThrows
   \<and> \<not> foundAbilityLine (tagLines 0
        [''STR 18 (+4)'', ''DEX 12 (+1)'', ''CON 16 (+3)'', ''INT 3 (-4)'', ''WIS 12 (+1)'',
         ''CHA 7 (-2)'', ''Saving Throws Dex +3''] initialState)"
proof -
  let ?six = "[''STR 18 (+4)'', ''DEX 12 (+1)'', ''CON 16 (+3)'', ''INT 3 (-4)'', ''WIS 12 (+1)'',
           ''CHA 7 (-2)'']"
  have six: "isAbilityLine ''STR 18 (+4)''" "isAbilityLine ''DEX 12 (+1)''"
    "isAbilityLine ''CON 16 (+3)''" "isAbilityLine ''INT 3 (-4)''"
    "isAbilityLine ''WIS 12 (+1)''" "isAbilityLine ''CHA 7 (-2)''"
    by code_simp+
  have pre: "parseIntoBlocks [''Armor Class 15''] = [(Armor, [(0, ''Armor Class 15'')])]"
    by code_simp
  then have closed: "\<not> has (parseIntoBlocks [''Armor Class 15'']) Abilities"
    by (simp add: has_def)
  have tr: "map trim ?six = ?six"
    by code_simp
  have "parseIntoBlocks ([''Armor Class 15''] @ ?six)
      = parseIntoBlocks [''Armor Class 15'']
        @ [(Abilities, zip [length [''Armor Class 15'']..<length [''Armor Class 15''] + length ?six]
             (map trim ?six))]"
    using ability_run_grouped [THEN conjunct1, rule_format, of ?six "[''Armor Class 15'']"]
      six closed by simp
  then have run: "parseIntoBlocks ([''Armor Class 15''] @ ?six)
      = [(Armor, [(0, ''Armor Class 15'')]),
         (Abilities, [(1, ''STR 18 (+4)''), (2, ''DEX 12 (+1)''), (3, ''CON 16 (+3)''),
                      (4, ''INT 3 (-4)''), (5, ''WIS 12 (+1)''), (6, ''CHA 7 (-2)'')])]"
    unfolding pre tr by (simp add: upt_rec)
  have s1: "parseIntoBlocks
        [''STR 18 (+4)'', ''DEX 12 (+1)'', ''CON 16 (+3)'', ''INT 3 (-4)'', ''WIS 12 (+1)'',
         ''CHA 7 (-2)'', ''Saving Throws Dex +3'']
      = [(Abilities, [(0, ''STR 18 (+4)''), (1, ''DEX 12 (+1)''), (2, ''CON 16 (+3)''),
                      (3, ''INT 3 (-4)''), (4, ''WIS 12 (+1)''), (5, ''CHA 7 (-2)'')]),
         (SavingThrows, [(6, ''Saving Throws Dex +3'')])]"
    by code_simp
  have s2: "currentBlockId (tagLines 0
        [''STR 18 (+4)'', ''DEX 12 (+1)'', ''CON 16 (+3)'', ''INT 3 (-4)'', ''WIS 12 (+1)'',
         ''CHA 7 (-2)'', ''Saving Throws Dex +3''] initialState) = Some SavingThrows"
    by code_simp
  have s3: "\<not> foundAbilityLine (tagLines 0
        [''STR 18 (+4)'', ''DEX 12 (+1)'', ''CON 16 (+3)'', ''INT 3 (-4)'', ''WIS 12 (+1)'',
         ''CHA 7 (-2)'', ''Saving Throws Dex +3''] initialState)"
    by code_simp
  show ?thesis
    using six closed run s1 s2 s3 by blast
qed

end
